theory Spec2Isabelle
  imports Main
begin

section \<open>Strings of the platform\<close>

text \<open>
  A JavaScript string is modelled as a \<^typ>\<open>string\<close>; a character stands for a code unit
  below 256. \<open>String.prototype.trim\<close> removes white space and line terminators from both
  ends: in that range these are TAB, LF, VT, FF, CR, SPACE and NBSP.
\<close>

definition is_js_space :: "char \<Rightarrow> bool" where
  "is_js_space c = (c \<in> set [CHR 0x09, CHR 0x0A, CHR 0x0B, CHR 0x0C, CHR 0x0D, CHR 0x20, CHR 0xA0])"

definition trim :: "string \<Rightarrow> string" where
  "trim s = rev (dropWhile is_js_space (rev (dropWhile is_js_space s)))"

text \<open>\<open>s.startsWith("/")\<close> and \<open>s.endsWith("/")\<close>.\<close>

definition startsWithSlash :: "string \<Rightarrow> bool" where
  "startsWithSlash s = (case s of [] \<Rightarrow> False | c # _ \<Rightarrow> c = CHR ''/'')"

definition endsWithSlash :: "string \<Rightarrow> bool" where
  "endsWithSlash s = (s \<noteq> [] \<and> last s = CHR ''/'')"

text \<open>Decimal rendering of a non-negative integer, as \<open>String(n)\<close> gives it.\<close>

definition digit_char :: "nat \<Rightarrow> char" where
  "digit_char d = ''0123456789'' ! d"

fun string_of_nat :: "nat \<Rightarrow> string" where
  "string_of_nat n =
     (if n < 10 then [digit_char n] else string_of_nat (n div 10) @ [digit_char (n mod 10)])"

definition string_of_int :: "int \<Rightarrow> string" where
  "string_of_int i = (if i < 0 then CHR ''-'' # string_of_nat (nat (- i)) else string_of_nat (nat i))"

text \<open>A value that is a string or a number (chat ids, allow-list entries), and \<open>String(v)\<close>.\<close>

datatype str_or_num = Str string | Num int

fun String_of :: "str_or_num \<Rightarrow> string" where
  "String_of (Str s) = s"
| "String_of (Num i) = string_of_int i"


section \<open>Webhook paths (webhook.ts)\<close>

definition normalizeWebhookPath :: "string \<Rightarrow> string" where
  "normalizeWebhookPath raw =
     (let trimmed = trim raw in
      if trimmed = [] then ''/''
      else
        let withSlash = (if startsWithSlash trimmed then trimmed else CHR ''/'' # trimmed) in
        if length withSlash > 1 \<and> endsWithSlash withSlash then butlast withSlash
        else withSlash)"

text \<open>
  \<open>resolveMaxWebhookPath(webhookPath?, webhookUrl?)\<close>. An absent argument is \<open>None\<close>.
  The third argument is what the platform's URL parser gives for \<open>webhookUrl\<close>:
  \<open>Some pathname\<close>, or \<open>None\<close> when \<open>new URL\<close> throws; it is read only where the
  source parses the URL.
\<close>

definition resolveMaxWebhookPath :: "string option \<Rightarrow> string option \<Rightarrow> string option \<Rightarrow> string" where
  "resolveMaxWebhookPath webhookPath webhookUrl parsedPathname =
     (let fromUrl =
        (case webhookUrl of
           None \<Rightarrow> ''/max''
         | Some u \<Rightarrow>
             if trim u = [] then ''/max''
             else (case parsedPathname of
                     None \<Rightarrow> ''/max''
                   | Some pn \<Rightarrow> normalizeWebhookPath (if pn = [] then ''/'' else pn)))
      in case webhookPath of
           None \<Rightarrow> fromUrl
         | Some p \<Rightarrow>
             let trimmedPath = trim p in
             if trimmedPath \<noteq> [] then normalizeWebhookPath trimmedPath else fromUrl)"

text \<open>
  The shape of a trimmed path that one round of normalisation does not bring to a fixed
  point: its final slash follows another slash or white space.
\<close>

definition slash_after_slash_or_space :: "string \<Rightarrow> bool" where
  "slash_after_slash_or_space t =
     (2 \<le> length t \<and> last t = CHR ''/'' \<and>
      (last (butlast t) = CHR ''/'' \<or> is_js_space (last (butlast t))))"


section \<open>Sticker cache (sticker-cache.ts)\<close>

text \<open>
  The two module-level variables: the per-chat map and the global last code
  (\<open>None\<close> is \<open>null\<close>).
\<close>

record sticker_cache =
  lastStickerByChat :: "string \<rightharpoonup> string"
  lastStickerGlobal :: "string option"

definition empty_cache :: sticker_cache where
  "empty_cache = \<lparr> lastStickerByChat = Map.empty, lastStickerGlobal = None \<rparr>"

definition rememberStickerCode :: "str_or_num \<Rightarrow> string \<Rightarrow> sticker_cache \<Rightarrow> sticker_cache" where
  "rememberStickerCode chatId code st =
     (let key = String_of chatId in
      st \<lparr> lastStickerByChat := (lastStickerByChat st)(key \<mapsto> code),
           lastStickerGlobal := Some code \<rparr>)"

text \<open>\<open>getLastStickerCode(chatId?)\<close>; \<open>if (code)\<close> holds for a non-empty string.\<close>

definition getLastStickerCode :: "str_or_num option \<Rightarrow> sticker_cache \<Rightarrow> string option" where
  "getLastStickerCode chatId st =
     (case chatId of
        None \<Rightarrow> lastStickerGlobal st
      | Some c \<Rightarrow>
          (case lastStickerByChat st (String_of c) of
             None \<Rightarrow> lastStickerGlobal st
           | Some code \<Rightarrow> if code \<noteq> [] then Some code else lastStickerGlobal st))"

text \<open>The cache after a sequence of \<open>rememberStickerCode\<close> calls, oldest first.\<close>

fun remember_all :: "(str_or_num \<times> string) list \<Rightarrow> sticker_cache \<Rightarrow> sticker_cache" where
  "remember_all [] st = st"
| "remember_all ((c, code) # rest) st = remember_all rest (rememberStickerCode c code st)"

text \<open>The code of the latest call whose chat id has the given key, if any.\<close>

fun latest_for :: "string \<Rightarrow> (str_or_num \<times> string) list \<Rightarrow> string option" where
  "latest_for key [] = None"
| "latest_for key ((c, code) # rest) =
     (case latest_for key rest of
        Some later \<Rightarrow> Some later
      | None \<Rightarrow> if String_of c = key then Some code else None)"


section \<open>Webhook requests (webhook.ts)\<close>

text \<open>A parsed JSON value, as the body reader returns it.\<close>

datatype json =
    JNull
  | JBool bool
  | JNumber int
  | JString string
  | JArray "json list"
  | JObject "(string \<times> json) list"

text \<open>
  \<open>!raw || typeof raw !== "object" || Array.isArray(raw)\<close> rejects \<open>null\<close>, booleans,
  numbers, strings and arrays: only an object passes.
\<close>

fun invalid_payload :: "json \<Rightarrow> bool" where
  "invalid_payload (JObject _) = False"
| "invalid_payload _ = True"

text \<open>
  What \<open>readJsonBodyWithLimit\<close> of the host SDK returns: a failure with its code and
  message, or the parsed value.
\<close>

datatype body_result = BodyError string string | BodyValue json

text \<open>An \<open>onUpdate\<close> callback either resolves or rejects with an error.\<close>

datatype callback_result = Resolved | Rejected string

record webhook_target =
  target_account :: string
  target_path :: string
  target_secret :: "string option"
  onUpdate :: "json \<Rightarrow> callback_result"

text \<open>
  The request as the handler reads it: the pathname the platform's URL parser gives for
  \<open>req.url\<close>, the method, the \<open>x-max-bot-api-secret\<close> header and the outcome of reading
  the body.
\<close>

record webhook_request =
  req_pathname :: string
  req_method :: "string option"
  req_secret_header :: "string option"
  req_body :: body_result

record http_response =
  statusCode :: nat
  headers :: "(string \<times> string) list"
  body :: string

text \<open>
  The result of the handler: whether it took the request, the response it wrote, the
  target whose \<open>onUpdate\<close> it called with which update, and the line given to that target's
  error logger.
\<close>

record webhook_outcome =
  handled :: bool
  response :: "http_response option"
  dispatched :: "(webhook_target \<times> json) option"
  error_logged :: "string option"

type_synonym webhook_registry = "string \<rightharpoonup> webhook_target list"

definition registerMaxWebhookTarget :: "webhook_target \<Rightarrow> webhook_registry \<Rightarrow> webhook_registry" where
  "registerMaxWebhookTarget target reg =
     (let key = normalizeWebhookPath (target_path target);
          normalizedTarget = target \<lparr> target_path := key \<rparr>;
          existing = (case reg key of None \<Rightarrow> [] | Some ts \<Rightarrow> ts)
      in reg(key \<mapsto> existing @ [normalizedTarget]))"

text \<open>A secret is truthy when it is present and not the empty string.\<close>

definition has_secret :: "webhook_target \<Rightarrow> bool" where
  "has_secret t = (case target_secret t of None \<Rightarrow> False | Some s \<Rightarrow> s \<noteq> [])"

text \<open>
  The matching loop; the third argument is \<open>matchedTarget\<close> so far. A target whose secret
  equals the header ends the loop; a target without a secret is kept and the loop goes on.
\<close>

fun match_target :: "webhook_target list \<Rightarrow> string \<Rightarrow> webhook_target option \<Rightarrow> webhook_target option" where
  "match_target [] webhookSecret matched = matched"
| "match_target (t # ts) webhookSecret matched =
     (if has_secret t \<and> target_secret t = Some webhookSecret then Some t
      else if \<not> has_secret t then match_target ts webhookSecret (Some t)
      else match_target ts webhookSecret matched)"

definition respond :: "nat \<Rightarrow> (string \<times> string) list \<Rightarrow> string \<Rightarrow> webhook_outcome" where
  "respond code hs text =
     \<lparr> handled = True,
       response = Some \<lparr> statusCode = code, headers = hs, body = text \<rparr>,
       dispatched = None, error_logged = None \<rparr>"

text \<open>\<open>String(req.headers["x-max-bot-api-secret"] ?? "")\<close>.\<close>

definition header_secret :: "webhook_request \<Rightarrow> string" where
  "header_secret req = (case req_secret_header req of None \<Rightarrow> [] | Some h \<Rightarrow> h)"

text \<open>
  \<open>handleMaxWebhookRequest\<close>. The first argument is the text the host SDK's
  \<open>requestBodyErrorToText\<close> gives for a body-read timeout.
\<close>

definition handleMaxWebhookRequest :: "string \<Rightarrow> webhook_registry \<Rightarrow> webhook_request \<Rightarrow> webhook_outcome" where
  \<open>handleMaxWebhookRequest timeoutText webhookTargets req =
     (let path = normalizeWebhookPath (req_pathname req) in
      case webhookTargets path of
        None \<Rightarrow> \<lparr> handled = False, response = None, dispatched = None, error_logged = None \<rparr>
      | Some targets \<Rightarrow>
          if targets = [] then
            \<lparr> handled = False, response = None, dispatched = None, error_logged = None \<rparr>
          else if req_method req \<noteq> Some ''POST'' then
            respond 405 [(''Allow'', ''POST'')] ''Method Not Allowed''
          else
           (let webhookSecret = header_secret req in
            case req_body req of
              BodyError code err \<Rightarrow>
                respond
                  (if code = ''PAYLOAD_TOO_LARGE'' then 413
                   else if code = ''REQUEST_BODY_TIMEOUT'' then 408 else 400)
                  []
                  (if code = ''REQUEST_BODY_TIMEOUT'' then timeoutText else err)
            | BodyValue raw \<Rightarrow>
                if invalid_payload raw then respond 400 [] ''invalid payload''
                else
                  (case match_target targets webhookSecret None of
                     None \<Rightarrow> respond 401 [] ''Unauthorized''
                   | Some matchedTarget \<Rightarrow>
                       (case onUpdate matchedTarget raw of
                          Resolved \<Rightarrow>
                            (respond 200 [(''Content-Type'', ''application/json'')] ''{"ok":true}'')
                              \<lparr> dispatched := Some (matchedTarget, raw) \<rparr>
                        | Rejected err \<Rightarrow>
                            (respond 500 [] ''Internal Server Error'')
                              \<lparr> dispatched := Some (matchedTarget, raw),
                                error_logged :=
                                  Some (''Webhook update processing failed: '' @ err) \<rparr>))))\<close>

text \<open>The status code of the response written, if one was.\<close>

definition status_of :: "webhook_outcome \<Rightarrow> nat option" where
  "status_of out = map_option statusCode (response out)"


text \<open>A target and a request to evaluate the handler on.\<close>

definition sample_target :: "string option \<Rightarrow> callback_result \<Rightarrow> string \<Rightarrow> webhook_target" where
  "sample_target sec res acct =
     \<lparr> target_account = acct, target_path = ''/max'', target_secret = sec,
       onUpdate = (\<lambda>_. res) \<rparr>"

definition sample_request :: "string option \<Rightarrow> webhook_request" where
  "sample_request hdr =
     \<lparr> req_pathname = ''/max'', req_method = Some ''POST'', req_secret_header = hdr,
       req_body = BodyValue (JObject []) \<rparr>"

definition sample_get :: "string option \<Rightarrow> webhook_request" where
  "sample_get hdr = (sample_request hdr) \<lparr> req_method := Some ''GET'' \<rparr>"


section \<open>Long polling (monitor.ts)\<close>

text \<open>
  A response of \<open>getUpdates\<close>: the updates and the marker (\<open>number | null\<close>). A request
  either succeeds with a response or fails (network error, timeout, bad status).
\<close>

record 'u updates_response =
  resp_updates :: "'u list"
  resp_marker :: "int option"

datatype 'u poll_result = PollOk "'u updates_response" | PollFailed

text \<open>
  One turn of the \<open>while\<close> loop, as the environment decides it: the abort flag read at the
  head of the loop, the outcome of the request, the abort flag read before the update of
  each index, and the abort flag read in the \<open>catch\<close> branch.
\<close>

record 'u poll_round =
  aborted_at_top :: bool
  poll :: "'u poll_result"
  aborted_before_update :: "nat \<Rightarrow> bool"
  aborted_in_catch :: bool

text \<open>
  The state of the loop: the local variable \<open>marker\<close>, the \<open>marker\<close> argument of every
  \<open>getUpdates\<close> call made so far, and the state the dispatch of updates acts on.
\<close>

record 's polling_state =
  marker :: "int option"
  requested :: "int option list"
  host :: 's

definition polling_start :: "'s \<Rightarrow> 's polling_state" where
  "polling_start s = \<lparr> marker = None, requested = [], host = s \<rparr>"

text \<open>
  The \<open>for\<close> loop over the updates of one response. An error of \<open>dispatchUpdate\<close> is caught
  and logged, so the dispatch is a function on the state in every case.
\<close>

fun dispatch_updates :: "('u \<Rightarrow> 's \<Rightarrow> 's) \<Rightarrow> (nat \<Rightarrow> bool) \<Rightarrow> nat \<Rightarrow> 'u list \<Rightarrow> 's \<Rightarrow> 's" where
  "dispatch_updates dispatch aborted i [] s = s"
| "dispatch_updates dispatch aborted i (u # us) s =
     (if aborted i then s
      else dispatch_updates dispatch aborted (Suc i) us (dispatch u s))"

text \<open>
  \<open>startMaxPollingLoop\<close> over the turns the environment supplies; the loop has no exit but
  the abort signal, so a finite list of turns gives the state reached after them.
\<close>

fun startMaxPollingLoop :: "('u \<Rightarrow> 's \<Rightarrow> 's) \<Rightarrow> 'u poll_round list \<Rightarrow> 's polling_state \<Rightarrow> 's polling_state" where
  "startMaxPollingLoop dispatch [] st = st"
| "startMaxPollingLoop dispatch (r # rs) st =
     (if aborted_at_top r then st
      else
        let st1 = st \<lparr> requested := requested st @ [marker st] \<rparr> in
        case poll r of
          PollOk resp \<Rightarrow>
            let st2 = (case resp_marker resp of
                         Some m \<Rightarrow> st1 \<lparr> marker := Some m \<rparr>
                       | None \<Rightarrow> st1);
                st3 = st2 \<lparr> host := dispatch_updates dispatch (aborted_before_update r) 0
                                       (resp_updates resp) (host st2) \<rparr>
            in startMaxPollingLoop dispatch rs st3
        | PollFailed \<Rightarrow>
            if aborted_in_catch r then st1
            else startMaxPollingLoop dispatch rs st1)"

text \<open>The order on markers: unset is below every number.\<close>

fun marker_le :: "int option \<Rightarrow> int option \<Rightarrow> bool" where
  "marker_le None _ = True"
| "marker_le (Some a) None = False"
| "marker_le (Some a) (Some b) = (a \<le> b)"

text \<open>The marker the loop holds after a turn that held \<open>m\<close> before it.\<close>

definition adopted :: "'u poll_result \<Rightarrow> int option \<Rightarrow> int option" where
  "adopted res m =
     (case res of
        PollOk resp \<Rightarrow> (case resp_marker resp of Some m' \<Rightarrow> Some m' | None \<Rightarrow> m)
      | PollFailed \<Rightarrow> m)"

text \<open>The markers present in the successful responses of a run, in order.\<close>

fun returned_markers :: "'u poll_round list \<Rightarrow> int list" where
  "returned_markers [] = []"
| "returned_markers (r # rs) =
     (case poll r of
        PollOk resp \<Rightarrow> (case resp_marker resp of Some m \<Rightarrow> m # returned_markers rs
                                                | None \<Rightarrow> returned_markers rs)
      | PollFailed \<Rightarrow> returned_markers rs)"


text \<open>A run of four turns, and a dispatch that records the updates it is given.\<close>

definition sample_round :: "nat poll_result \<Rightarrow> nat poll_round" where
  "sample_round res =
     \<lparr> aborted_at_top = False, poll = res, aborted_before_update = (\<lambda>_. False),
       aborted_in_catch = False \<rparr>"

definition sample_run :: "nat poll_round list" where
  "sample_run =
     [sample_round (PollOk \<lparr> resp_updates = [1], resp_marker = Some 5 \<rparr>),
      sample_round PollFailed,
      sample_round (PollOk \<lparr> resp_updates = [], resp_marker = None \<rparr>),
      sample_round (PollOk \<lparr> resp_updates = [2, 3], resp_marker = Some 7 \<rparr>)]"

definition count_update :: "nat \<Rightarrow> nat list \<Rightarrow> nat list" where
  "count_update u seen = seen @ [u]"


section \<open>Messages, options and the host (api.ts, monitor.ts)\<close>

text \<open>
  The parts of the API types that \<open>monitor.ts\<close> reads. An optional or nullable field is an
  option. Values of a payload, typed \<open>unknown\<close> in the source and cast where they are used,
  are taken as text; a latitude or longitude is the text \<open>String\<close> gives for it.
\<close>

record max_user =
  user_id :: int
  first_name :: string
  last_name :: "string option"
  username :: "string option"
  is_bot :: bool

record max_recipient =
  chat_id :: "int option"
  chat_type :: "string option"

record attachment_payload =
  pl_code :: "string option"
  pl_url :: "string option"
  pl_filename :: "string option"
  pl_latitude :: "string option"
  pl_longitude :: "string option"
  pl_name :: "string option"
  pl_vcf_info :: "string option"

record max_attachment =
  att_type :: "string option"
  att_payload :: "attachment_payload option"
  att_url :: "string option"
  att_filename :: "string option"
  att_latitude :: "string option"
  att_longitude :: "string option"

record max_body =
  mid :: string
  body_text :: "string option"
  attachments :: "max_attachment list option"

text \<open>A link to another message: its type, its sender and \<open>message?.body?.mid\<close>.\<close>

record max_link =
  link_type :: string
  link_sender :: "max_user option"
  link_mid :: "string option"

record max_message =
  msg_sender :: "max_user option"
  msg_recipient :: max_recipient
  msg_timestamp :: nat
  msg_link :: "max_link option"
  msg_body :: max_body




record group_config =
  requireMention :: "bool option"

text \<open>
  The options of the monitor: the account with the fields of its configuration that are
  read, \<open>config.channels?.defaults?.groupPolicy\<close>, and the identity of the bot.
\<close>

record monitor_opts =
  accountId :: string
  token :: string
  dmPolicy :: "string option"
  allowFrom :: "str_or_num list option"
  groupPolicy :: "string option"
  groups :: "(string \<rightharpoonup> group_config) option"
  mediaMaxMb :: "nat option"
  defaultGroupPolicy :: "string option"
  botUserId :: "int option"
  botUsername :: "string option"

text \<open>What the host's media functions return.\<close>

record fetched_media =
  fetched_buffer :: string
  fetched_contentType :: "string option"
  fetched_fileName :: "string option"

record saved_media =
  saved_path :: string
  saved_contentType :: "string option"

record agent_route =
  agentId :: string
  sessionKey :: string
  route_accountId :: string

text \<open>
  The collaborators of \<open>monitor.ts\<close>, as functions of what they are called with. A call
  that the source wraps in \<open>try\<close> or \<open>.catch\<close> gives \<open>None\<close> (or \<open>False\<close>) when it
  throws. \<open>new_RegExp p\<close> is \<open>new RegExp(p, "i")\<close> of the platform: \<open>None\<close> when the
  constructor throws a \<open>SyntaxError\<close> because \<open>p\<close> is not a pattern, otherwise the \<open>test\<close>
  method of the expression. \<open>unsafe_integer_text\<close> is the text the platform gives for an
  integer of magnitude \<open>2^53\<close> or more (rounded, and in exponent form from \<open>10^21\<close> on), and
  \<open>now\<close> is \<open>Date.now()\<close>, a count of milliseconds below \<open>2^53\<close>.
\<close>

record host_env =
  fetchRemoteMedia :: "string \<Rightarrow> nat \<Rightarrow> fetched_media option"
  saveMediaBuffer :: "fetched_media \<Rightarrow> nat \<Rightarrow> saved_media option"
  readAllowFromStore :: "string list option"
  upsertPairingRequest :: "string \<Rightarrow> string \<Rightarrow> string \<times> bool"
  buildPairingReply :: "string \<Rightarrow> string \<Rightarrow> string"
  sendMaxMessage :: "string \<Rightarrow> string \<Rightarrow> bool"
  new_RegExp :: "string \<Rightarrow> (string \<Rightarrow> bool) option"
  unsafe_integer_text :: "int \<Rightarrow> string"
  resolveAgentRoute :: "string \<Rightarrow> string \<Rightarrow> string \<Rightarrow> agent_route"
  formatAgentEnvelope :: "string \<Rightarrow> nat \<Rightarrow> string \<Rightarrow> string"
  getMessages :: "int \<Rightarrow> string \<Rightarrow> max_message list option"
  now :: nat

text \<open>
  The record given to \<open>finalizeInboundContext\<close>, whose result goes to the host pipeline.
  A list that the source passes as \<open>undefined\<close> when empty is the empty list here.
\<close>

record inbound_ctx =
  Body :: string
  BodyForAgent :: string
  RawBody :: string
  CommandBody :: string
  From :: string
  To :: string
  SessionKey :: string
  AccountId :: string
  ChatType :: string
  ConversationLabel :: string
  SenderName :: "string option"
  SenderId :: "string option"
  SenderUsername :: "string option"
  WasMentioned :: "bool option"
  MessageSid :: string
  ReplyToId :: "string option"
  MediaPaths :: "string list"
  MediaUrls :: "string list"
  MediaTypes :: "string list"

text \<open>
  The calls that act outside the function, in the order they are made. Log lines and the
  host's pure look-ups (store path, envelope options, session time stamp, reply prefix) are
  not recorded. \<open>DispatchReply ctx chat replyTo\<close> is the call of
  \<open>dispatchReplyWithBufferedBlockDispatcher\<close>; \<open>chat\<close> and \<open>replyTo\<close> are the \<open>chatId\<close> and
  \<open>replyToId\<close> its \<open>deliver\<close> callback gives to \<open>deliverMaxReply\<close>. \<open>Rejects e\<close> ends a list:
  the function threw \<open>e\<close> at that point and made no further call.
\<close>

datatype effect =
    FetchRemoteMedia string nat
  | SaveMediaBuffer fetched_media nat
  | ReadAllowFromStore
  | UpsertPairingRequest string string
  | SendMaxMessage string string
  | StatusSinkInbound
  | StatusSinkOutbound
  | SendAction int string
  | GetMessages int string
  | ResolveAgentRoute string string string
  | RecordSessionMeta inbound_ctx
  | DispatchReply inbound_ctx string string
  | Rejects string


section \<open>Inbound messages (monitor.ts)\<close>

subsection \<open>Helpers\<close>

text \<open>\<open>s.startsWith(p)\<close>, \<open>xs.join(" ")\<close>, \<open>a ?? b\<close> and \<open>String(n)\<close> of an optional number.\<close>

definition starts_with :: "string \<Rightarrow> string \<Rightarrow> bool" where
  "starts_with p s = (take (length p) s = p)"

fun join_space :: "string list \<Rightarrow> string" where
  "join_space [] = []"
| "join_space [x] = x"
| "join_space (x # y # ys) = x @ '' '' @ join_space (y # ys)"

definition orElse :: "'a option \<Rightarrow> 'a option \<Rightarrow> 'a option" where
  "orElse a b = (case a of Some x \<Rightarrow> Some x | None \<Rightarrow> b)"

definition orEmpty :: "string option \<Rightarrow> string" where
  "orEmpty a = (case a of Some x \<Rightarrow> x | None \<Rightarrow> [])"

definition String_of_id :: "int option \<Rightarrow> string" where
  "String_of_id i = (case i of Some n \<Rightarrow> string_of_int n | None \<Rightarrow> ''undefined'')"

text \<open>\<open>payload?.field\<close>.\<close>

definition of_payload :: "(attachment_payload \<Rightarrow> string option) \<Rightarrow> max_attachment \<Rightarrow> string option" where
  "of_payload field att = (case att_payload att of None \<Rightarrow> None | Some p \<Rightarrow> field p)"

definition formatSenderName :: "max_user option \<Rightarrow> string" where
  "formatSenderName user =
     (case user of
        None \<Rightarrow> ''Unknown''
      | Some u \<Rightarrow>
          let parts = [first_name u] @
                (case last_name u of None \<Rightarrow> [] | Some l \<Rightarrow> if l \<noteq> [] then [l] else []);
              joined = join_space parts
          in if joined \<noteq> [] then joined
             else if orEmpty (username u) \<noteq> [] then orEmpty (username u)
             else ''user_'' @ string_of_int (user_id u))"



definition is_digit :: "char \<Rightarrow> bool" where
  "is_digit c = (c \<in> set ''0123456789'')"

definition edited_marker :: "string \<Rightarrow> bool" where
  "edited_marker s =
     (starts_with ''_edited_'' s \<and> drop 8 s \<noteq> [] \<and> list_all is_digit (drop 8 s))"

fun strip_edited :: "string \<Rightarrow> string" where
  "strip_edited [] = []"
| "strip_edited (c # cs) = (if edited_marker (c # cs) then [] else c # strip_edited cs)"


subsection \<open>Attachments\<close>

text \<open>The four lists the loop over the attachments fills, the sticker cache and the calls made.\<close>

record attachment_state =
  attachmentDescriptions :: "string list"
  mediaPaths :: "string list"
  mediaUrls :: "string list"
  mediaTypes :: "string list"
  stickers :: sticker_cache
  media_calls :: "effect list"

definition describe :: "string \<Rightarrow> attachment_state \<Rightarrow> attachment_state" where
  "describe d st = st \<lparr> attachmentDescriptions := attachmentDescriptions st @ [d] \<rparr>"

text \<open>\<open>`[Label${v ? `: ${v}` : ""}]`\<close>.\<close>

definition bracket :: "string \<Rightarrow> string \<Rightarrow> string" where
  "bracket label v = ''['' @ label @ (if v \<noteq> [] then '': '' @ v else []) @ '']''"

text \<open>The body of the loop, for one attachment.\<close>

definition process_attachment :: "host_env \<Rightarrow> monitor_opts \<Rightarrow> int option \<Rightarrow> max_attachment \<Rightarrow> attachment_state \<Rightarrow> attachment_state" where
  "process_attachment env opts chatId att st =
     (let attType = (case att_type att of None \<Rightarrow> ''unknown'' | Some ty \<Rightarrow> ty) in
      if attType \<in> set [''image'', ''sticker'', ''video'', ''audio'', ''file''] then
        let stickerCode = (if attType = ''sticker'' then orEmpty (of_payload pl_code att) else []);
            st1 = (if stickerCode \<noteq> [] then
                     let d = describe (''[Sticker: code='' @ stickerCode @ '']'') st in
                     (case chatId of
                        None \<Rightarrow> d
                      | Some c \<Rightarrow> d \<lparr> stickers := rememberStickerCode (Num c) stickerCode (stickers d) \<rparr>)
                   else st);
            url = orEmpty (orElse (of_payload pl_url att) (att_url att))
        in
          if url \<noteq> [] \<and> starts_with ''http'' url then
            let maxBytes = (case mediaMaxMb opts of None \<Rightarrow> 20 | Some mb \<Rightarrow> mb) * 1024 * 1024;
                failed = (if attType \<noteq> ''sticker''
                          then describe (''['' @ attType @ '': '' @ url @ '']'')
                          else (\<lambda>x. x))
            in
              (case fetchRemoteMedia env url maxBytes of
                 None \<Rightarrow>
                   failed (st1 \<lparr> media_calls := media_calls st1 @ [FetchRemoteMedia url maxBytes] \<rparr>)
               | Some fetched \<Rightarrow>
                   (case saveMediaBuffer env fetched maxBytes of
                      None \<Rightarrow>
                        failed (st1 \<lparr> media_calls := media_calls st1 @
                                   [FetchRemoteMedia url maxBytes, SaveMediaBuffer fetched maxBytes] \<rparr>)
                    | Some saved \<Rightarrow>
                        st1 \<lparr> mediaPaths := mediaPaths st1 @ [saved_path saved],
                              mediaUrls := mediaUrls st1 @ [saved_path saved],
                              mediaTypes := mediaTypes st1 @
                                (case saved_contentType saved of
                                   None \<Rightarrow> []
                                 | Some ct \<Rightarrow> if ct \<noteq> [] then [ct] else []),
                              media_calls := media_calls st1 @
                                [FetchRemoteMedia url maxBytes, SaveMediaBuffer fetched maxBytes] \<rparr>))
          else if attType = ''sticker'' then
            describe (bracket ''Sticker'' (orEmpty (of_payload pl_code att))) st1
          else if attType = ''file'' then
            describe (bracket ''File''
              (orEmpty (orElse (att_filename att) (of_payload pl_filename att)))) st1
          else describe (''['' @ attType @ '']'') st1
      else if attType = ''share'' then
        describe (bracket ''Share'' (orEmpty (orElse (of_payload pl_url att) (att_url att)))) st
      else if attType = ''location'' then
        describe (''[Location: ''
            @ orEmpty (orElse (att_latitude att) (of_payload pl_latitude att)) @ '', ''
            @ orEmpty (orElse (att_longitude att) (of_payload pl_longitude att)) @ '']'') st
      else if attType = ''contact'' then
        describe (bracket ''Contact''
          (orEmpty (orElse (of_payload pl_name att) (of_payload pl_vcf_info att)))) st
      else if attType \<noteq> ''inline_keyboard'' then
        describe (''['' @ attType @ '']'') st
      else st)"

fun process_attachments :: "host_env \<Rightarrow> monitor_opts \<Rightarrow> int option \<Rightarrow> max_attachment list \<Rightarrow> attachment_state \<Rightarrow> attachment_state" where
  "process_attachments env opts chatId [] st = st"
| "process_attachments env opts chatId (att # atts) st =
     process_attachments env opts chatId atts (process_attachment env opts chatId att st)"

definition attachments_start :: "sticker_cache \<Rightarrow> attachment_state" where
  "attachments_start cache =
     \<lparr> attachmentDescriptions = [], mediaPaths = [], mediaUrls = [], mediaTypes = [],
       stickers = cache, media_calls = [] \<rparr>"


subsection \<open>processIncomingMessage\<close>

definition isGroup :: "max_message \<Rightarrow> bool" where
  "isGroup message =
     (chat_type (msg_recipient message) = Some ''chat''
      \<or> chat_type (msg_recipient message) = Some ''channel'')"

definition rawText :: "max_message \<Rightarrow> string" where
  "rawText message = orEmpty (body_text (msg_body message))"

text \<open>The state after the loop over \<open>message.body.attachments ?? []\<close>.\<close>

definition reduce_attachments :: "host_env \<Rightarrow> monitor_opts \<Rightarrow> max_message \<Rightarrow> sticker_cache \<Rightarrow> attachment_state" where
  "reduce_attachments env opts message cache =
     process_attachments env opts (chat_id (msg_recipient message))
       (case attachments (msg_body message) of None \<Rightarrow> [] | Some atts \<Rightarrow> atts)
       (attachments_start cache)"

definition attachmentText :: "attachment_state \<Rightarrow> string" where
  "attachmentText st = join_space (attachmentDescriptions st)"

text \<open>\<open>rawText.trim() || attachmentText\<close> and \<open>mediaPaths.length > 0\<close>.\<close>

definition effectiveText :: "max_message \<Rightarrow> attachment_state \<Rightarrow> string" where
  "effectiveText message st =
     (if trim (rawText message) \<noteq> [] then trim (rawText message) else attachmentText st)"

definition hasMedia :: "attachment_state \<Rightarrow> bool" where
  "hasMedia st = (mediaPaths st \<noteq> [])"

text \<open>
  The reply test of the mention block: the message is a reply whose linked sender is a bot
  with the user id of this bot.
\<close>

definition reply_to_bot :: "monitor_opts \<Rightarrow> max_message \<Rightarrow> bool" where
  "reply_to_bot opts message =
     (case msg_link message of
        None \<Rightarrow> False
      | Some l \<Rightarrow>
          link_type l = ''reply'' \<and>
          (case link_sender l of
             None \<Rightarrow> False
           | Some replySender \<Rightarrow> is_bot replySender \<and> Some (user_id replySender) = botUserId opts))"

text \<open>The source of the pattern, \<open>`@${opts.botUsername}\\b`\<close>.\<close>

definition mentionPattern :: "string \<Rightarrow> string" where
  "mentionPattern name = ''@'' @ name @ [CHR 0x5C, CHR ''b'']"

text \<open>
  \<open>wasMentioned\<close>: \<open>Inr None\<close> is \<open>undefined\<close>, and \<open>Inl e\<close> is the error thrown by
  \<open>new RegExp\<close>, which nothing in the function catches.
\<close>

definition wasMentioned :: "host_env \<Rightarrow> monitor_opts \<Rightarrow> max_message \<Rightarrow> string + bool option" where
  "wasMentioned env opts message =
     (if isGroup message \<and> orEmpty (botUsername opts) \<noteq> [] then
        (case new_RegExp env (mentionPattern (orEmpty (botUsername opts))) of
           None \<Rightarrow> Inl ''SyntaxError''
         | Some test \<Rightarrow>
             let mentioned = test (rawText message)
             in if \<not> mentioned \<and> reply_to_bot opts message then Inr (Some True)
                else Inr (Some mentioned))
      else Inr None)"

text \<open>
  The block \<open>DM security\<close>. First the allow-list it checks,
  \<open>[...configAllowFrom, ...storeAllowFrom]\<close>, where a failed read of the pairing store
  gives no entries, and \<open>String(senderId)\<close>.
\<close>

definition effectiveAllowFrom :: "host_env \<Rightarrow> monitor_opts \<Rightarrow> string list" where
  "effectiveAllowFrom env opts =
     map String_of (case allowFrom opts of None \<Rightarrow> [] | Some xs \<Rightarrow> xs)
     @ (case readAllowFromStore env of None \<Rightarrow> [] | Some xs \<Rightarrow> xs)"

definition senderStr :: "max_message \<Rightarrow> string" where
  "senderStr message = String_of_id (map_option user_id (msg_sender message))"

text \<open>
  Whether the message goes on, and the calls made. The pairing reply is sent in a \<open>try\<close>;
  the status sink is called when the send succeeded.
\<close>

definition dm_gate :: "host_env \<Rightarrow> monitor_opts \<Rightarrow> max_message \<Rightarrow> bool \<times> effect list" where
  "dm_gate env opts message =
     (let senderId = map_option user_id (msg_sender message);
          chatId = chat_id (msg_recipient message);
          policy = (case dmPolicy opts of None \<Rightarrow> ''pairing'' | Some p \<Rightarrow> p)
      in
        if policy = ''disabled'' then (False, [])
        else if policy \<noteq> ''open'' then
          let allowed = (senderStr message \<in> set (effectiveAllowFrom env opts)
                         \<or> ''*'' \<in> set (effectiveAllowFrom env opts))
          in
            if \<not> allowed then
              if policy = ''pairing'' then
                let senderName = formatSenderName (msg_sender message);
                    code = fst (upsertPairingRequest env (senderStr message) senderName);
                    created = snd (upsertPairingRequest env (senderStr message) senderName)
                in
                  if created then
                    let pairingReply =
                          buildPairingReply env (''Your MAX user id: '' @ senderStr message) code;
                        dest = String_of_id (orElse chatId senderId)
                    in (False,
                        [ReadAllowFromStore,
                         UpsertPairingRequest (senderStr message) senderName,
                         SendMaxMessage dest pairingReply]
                        @ (if sendMaxMessage env dest pairingReply then [StatusSinkOutbound] else []))
                  else (False,
                        [ReadAllowFromStore, UpsertPairingRequest (senderStr message) senderName])
              else (False, [ReadAllowFromStore])
            else (True, [ReadAllowFromStore])
        else (True, []))"

text \<open>
  The block \<open>Group policy\<close> in three parts: the policy with its allow-list, the resolved
  \<open>requireMention\<close>, and the gate as a whole, given the value of \<open>wasMentioned\<close>.
\<close>

definition group_lookup :: "monitor_opts \<Rightarrow> string \<Rightarrow> group_config option" where
  "group_lookup opts key = (case groups opts of None \<Rightarrow> None | Some g \<Rightarrow> g key)"

definition group_policy_allows :: "monitor_opts \<Rightarrow> max_message \<Rightarrow> bool" where
  "group_policy_allows opts message =
     (let policy = (case orElse (groupPolicy opts) (defaultGroupPolicy opts) of
                      None \<Rightarrow> ''allowlist'' | Some p \<Rightarrow> p);
          chatIdStr = String_of_id (chat_id (msg_recipient message))
      in
        if policy = ''disabled'' then False
        else if policy = ''allowlist'' then
          (group_lookup opts chatIdStr \<noteq> None \<or> group_lookup opts ''*'' \<noteq> None)
        else True)"

definition resolved_requireMention :: "monitor_opts \<Rightarrow> max_message \<Rightarrow> bool" where
  "resolved_requireMention opts message =
     (let groupCfg = orElse (group_lookup opts (String_of_id (chat_id (msg_recipient message))))
                            (group_lookup opts ''*'')
      in case groupCfg of
           None \<Rightarrow> True
         | Some g \<Rightarrow> (case requireMention g of None \<Rightarrow> True | Some b \<Rightarrow> b))"

definition group_gate :: "monitor_opts \<Rightarrow> max_message \<Rightarrow> bool option \<Rightarrow> bool" where
  "group_gate opts message mentioned =
     (if \<not> group_policy_allows opts message then False
      else if resolved_requireMention opts message \<and> mentioned \<noteq> Some True
      then False
      else True)"

text \<open>
  From \<open>Resolve agent route\<close> to the end: the route, the context, the typing indicator and
  the call of the host pipeline. The \<open>deliver\<close> callback strips the edit marker from the
  message id. The last argument is the value of \<open>wasMentioned\<close>.
\<close>

definition hand_off :: "host_env \<Rightarrow> monitor_opts \<Rightarrow> max_message \<Rightarrow> attachment_state \<Rightarrow> bool option \<Rightarrow> effect list" where
  "hand_off env opts message st mentioned =
     (let senderId = map_option user_id (msg_sender message);
          senderName = formatSenderName (msg_sender message);
          chatId = chat_id (msg_recipient message);
          messageId = mid (msg_body message);
          replyToId = (case msg_link message of
                         None \<Rightarrow> None
                       | Some l \<Rightarrow> if link_type l = ''reply'' then link_mid l else None);
          chatIdStr = String_of_id (orElse chatId senderId);
          route = resolveAgentRoute env (accountId opts)
                    (if isGroup message then ''group'' else ''direct'') chatIdStr;
          fromLabel = (if isGroup message then ''chat:'' @ chatIdStr
                       else if senderName \<noteq> [] then senderName
                       else ''user:'' @ String_of_id senderId);
          bodyForAgent =
            (if attachmentText st \<noteq> [] then
               (if trim (rawText message) \<noteq> []
                then trim (rawText message) @ [CHR 0x0A] @ attachmentText st
                else attachmentText st)
             else rawText message);
          ctxPayload =
            \<lparr> Body = formatAgentEnvelope env fromLabel (msg_timestamp message) bodyForAgent,
              BodyForAgent = bodyForAgent,
              RawBody = rawText message,
              CommandBody = (if rawText message \<noteq> [] then rawText message else attachmentText st),
              From = ''max:'' @ String_of_id senderId,
              To = ''max:'' @ chatIdStr,
              SessionKey = sessionKey route,
              AccountId = route_accountId route,
              ChatType = (if isGroup message then ''group'' else ''direct''),
              ConversationLabel = fromLabel,
              SenderName = (if senderName \<noteq> [] then Some senderName else None),
              SenderId = map_option string_of_int senderId,
              SenderUsername = (case msg_sender message of None \<Rightarrow> None | Some u \<Rightarrow> username u),
              WasMentioned = (if isGroup message then mentioned else None),
              MessageSid = messageId,
              ReplyToId = replyToId,
              MediaPaths = mediaPaths st,
              MediaUrls = mediaUrls st,
              MediaTypes = mediaTypes st \<rparr>
      in
        [ResolveAgentRoute (accountId opts) (if isGroup message then ''group'' else ''direct'')
           chatIdStr,
         RecordSessionMeta ctxPayload]
        @ (case chatId of None \<Rightarrow> [] | Some c \<Rightarrow> [SendAction c ''typing_on''])
        @ [DispatchReply ctxPayload chatIdStr (strip_edited messageId)])"

text \<open>
  \<open>processIncomingMessage\<close>: the calls made, in order, and the sticker cache afterwards.
\<close>

definition processIncomingMessage :: "host_env \<Rightarrow> monitor_opts \<Rightarrow> max_message \<Rightarrow> sticker_cache \<Rightarrow> effect list \<times> sticker_cache" where
  "processIncomingMessage env opts message cache =
     (let st = reduce_attachments env opts message cache in
      if effectiveText message st = [] \<and> \<not> hasMedia st then (media_calls st, stickers st)
      else
        (case wasMentioned env opts message of
           Inl err \<Rightarrow> (media_calls st @ [Rejects err], stickers st)
         | Inr mentioned \<Rightarrow>
             if \<not> isGroup message then
               (if fst (dm_gate env opts message)
                then (media_calls st @ snd (dm_gate env opts message)
                        @ hand_off env opts message st mentioned,
                      stickers st)
                else (media_calls st @ snd (dm_gate env opts message), stickers st))
             else if group_gate opts message mentioned
               then (media_calls st @ hand_off env opts message st mentioned, stickers st)
               else (media_calls st, stickers st)))"

text \<open>Whether a list of calls reaches the host pipeline, and whether it resolves a route.\<close>

fun is_dispatch :: "effect \<Rightarrow> bool" where
  "is_dispatch (DispatchReply _ _ _) = True"
| "is_dispatch _ = False"

fun is_route :: "effect \<Rightarrow> bool" where
  "is_route (ResolveAgentRoute _ _ _) = True"
| "is_route _ = False"

fun is_media_call :: "effect \<Rightarrow> bool" where
  "is_media_call (FetchRemoteMedia _ _) = True"
| "is_media_call (SaveMediaBuffer _ _) = True"
| "is_media_call _ = False"

definition forwarded :: "effect list \<Rightarrow> bool" where
  "forwarded calls = list_ex is_dispatch calls"


subsection \<open>dispatchUpdate\<close>











subsection \<open>A host and messages to evaluate on\<close>

definition sample_route :: "string \<Rightarrow> string \<Rightarrow> string \<Rightarrow> agent_route" where
  "sample_route account kind peer =
     \<lparr> agentId = ''main'', sessionKey = kind @ '':'' @ peer, route_accountId = account \<rparr>"

definition sample_env :: "bool \<Rightarrow> host_env" where
  "sample_env created =
     \<lparr> fetchRemoteMedia = (\<lambda>_ _. None),
       saveMediaBuffer = (\<lambda>_ _. None),
       readAllowFromStore = Some [],
       upsertPairingRequest = (\<lambda>_ _. (''PAIR42'', created)),
       buildPairingReply = (\<lambda>idLine code. idLine @ '', code: '' @ code),
       sendMaxMessage = (\<lambda>_ _. True),
       new_RegExp = (\<lambda>_. Some (\<lambda>_. False)),
       unsafe_integer_text = (\<lambda>_. ''1e+21''),
       resolveAgentRoute = sample_route,
       formatAgentEnvelope = (\<lambda>_ _ text. text),
       getMessages = (\<lambda>_ _. None),
       now = 0 \<rparr>"

definition sample_opts :: "string option \<Rightarrow> string option \<Rightarrow> monitor_opts" where
  "sample_opts dm name =
     \<lparr> accountId = ''default'', token = ''t'', dmPolicy = dm, allowFrom = None,
       groupPolicy = None, groups = Some [''*'' \<mapsto> \<lparr> requireMention = None \<rparr>],
       mediaMaxMb = None, defaultGroupPolicy = None, botUserId = Some 42,
       botUsername = name \<rparr>"

definition sample_user :: "int \<Rightarrow> bool \<Rightarrow> max_user" where
  "sample_user uid isbot =
     \<lparr> user_id = uid, first_name = ''Ann'', last_name = None, username = None, is_bot = isbot \<rparr>"

definition sample_message :: "string \<Rightarrow> string option \<Rightarrow> max_attachment list \<Rightarrow> max_link option \<Rightarrow> max_message" where
  "sample_message ctype txt atts lnk =
     \<lparr> msg_sender = Some (sample_user 1 False),
       msg_recipient = \<lparr> chat_id = Some 77, chat_type = Some ctype \<rparr>,
       msg_timestamp = 1000,
       msg_link = lnk,
       msg_body = \<lparr> mid = ''mid.1'', body_text = txt, attachments = Some atts \<rparr> \<rparr>"

definition sticker_attachment :: max_attachment where
  "sticker_attachment =
     \<lparr> att_type = Some ''sticker'',
       att_payload = Some \<lparr> pl_code = Some ''abc123'', pl_url = None, pl_filename = None,
                            pl_latitude = None, pl_longitude = None, pl_name = None,
                            pl_vcf_info = None \<rparr>,
       att_url = None, att_filename = None, att_latitude = None, att_longitude = None \<rparr>"

definition reply_to_bot_link :: max_link where
  "reply_to_bot_link =
     \<lparr> link_type = ''reply'', link_sender = Some (sample_user 42 True), link_mid = Some ''mid.0'' \<rparr>"






section \<open>Verified properties\<close>

subsection \<open>Webhook paths\<close>

lemma trim_fixed:
  assumes "s \<noteq> []" "\<not> is_js_space (hd s)" "\<not> is_js_space (last s)"
  shows "trim s = s"
proof -
  have a: "dropWhile is_js_space s = s"
    using assms by (simp add: dropWhile_eq_self_iff)
  have "\<not> is_js_space (hd (rev s))"
    using assms by (simp add: hd_rev)
  then have "dropWhile is_js_space (rev s) = rev s"
    by (simp add: dropWhile_eq_self_iff)
  with a show ?thesis by (simp add: trim_def)
qed

lemma trim_ends:
  assumes "trim p \<noteq> []"
  shows "\<not> is_js_space (hd (trim p))" and "\<not> is_js_space (last (trim p))"
proof -
  define d1 where "d1 = dropWhile is_js_space p"
  define d2 where "d2 = dropWhile is_js_space (rev d1)"
  have tr: "trim p = rev d2" by (simp add: trim_def d1_def d2_def)
  have ne2: "d2 \<noteq> []" using assms tr by simp
  have ne1: "d1 \<noteq> []"
  proof
    assume "d1 = []"
    then have "d2 = []" by (simp add: d2_def)
    with ne2 show False by simp
  qed
  have "\<not> is_js_space (hd d2)"
    using ne2 unfolding d2_def by (rule hd_dropWhile)
  then show "\<not> is_js_space (last (trim p))"
    using ne2 by (simp add: tr last_rev)
  have h1: "\<not> is_js_space (hd d1)"
    using ne1 unfolding d1_def by (rule hd_dropWhile)
  have "rev d1 = takeWhile is_js_space (rev d1) @ d2"
    by (simp add: d2_def)
  then have "last (rev d1) = last d2"
    using ne2 by (metis last_appendR)
  then have "hd (trim p) = hd d1"
    using ne1 ne2 by (simp add: tr hd_rev last_rev)
  with h1 show "\<not> is_js_space (hd (trim p))" by simp
qed

lemma slash_not_space: "\<not> is_js_space CHR ''/''"
  by (simp add: is_js_space_def)

lemma normalize_fixed:
  assumes "r \<noteq> []" "hd r = CHR ''/''"
    and "r = ''/'' \<or> (last r \<noteq> CHR ''/'' \<and> \<not> is_js_space (last r))"
  shows "normalizeWebhookPath (trim r) = r"
proof -
  have t: "trim r = r"
    using assms slash_not_space by (intro trim_fixed) auto
  have tt: "trim (trim r) = r" by (simp add: t)
  obtain cs where r: "r = CHR ''/'' # cs" using assms(1,2) by (cases r) auto
  show ?thesis
    unfolding normalizeWebhookPath_def Let_def tt
    using assms(3) by (auto simp: r startsWithSlash_def endsWithSlash_def)
qed


lemma last_butlast_aux: "cs \<noteq> [] \<Longrightarrow> last (CHR ''/'' # butlast cs) = (if butlast cs = [] then CHR ''/'' else last (butlast cs))"
  by simp

lemma Suc0_le_length: "(Suc 0 \<le> length cs) = (cs \<noteq> [])"
  by (cases cs) auto

lemma resolve_shape:
  assumes "\<not> slash_after_slash_or_space (trim p)"
  defines "r \<equiv> resolveMaxWebhookPath (Some p) None None"
  shows "r \<noteq> [] \<and> hd r = CHR ''/'' \<and> (r = ''/'' \<or> (last r \<noteq> CHR ''/'' \<and> \<not> is_js_space (last r)))"
proof (cases "trim p = []")
  case True
  then have "r = ''/max''" by (simp add: r_def resolveMaxWebhookPath_def)
  then show ?thesis by (simp add: is_js_space_def)
next
  case False
  define t where "t = trim p"
  have ne: "t \<noteq> []" using False by (simp add: t_def)
  have h: "\<not> is_js_space (hd t)" and l: "\<not> is_js_space (last t)"
    using trim_ends[OF False] by (simp_all add: t_def)
  have tt: "trim t = t" using ne h l by (rule trim_fixed)
  have bad: "\<not> slash_after_slash_or_space t" using assms(1) by (simp add: t_def)
  have r: "r = normalizeWebhookPath t"
    using False by (simp add: r_def resolveMaxWebhookPath_def t_def)
  obtain c cs where t: "t = c # cs" using ne by (cases t) auto
  show ?thesis
  proof (cases "c = CHR ''/''")
    case True
    show ?thesis
    proof (cases "cs = []")
      case True
      with \<open>c = CHR ''/''\<close> show ?thesis
        unfolding r normalizeWebhookPath_def Let_def tt
        by (simp add: t startsWithSlash_def endsWithSlash_def)
    next
      case False
      then have "Suc 0 \<le> length cs" by (cases cs) auto
      with False show ?thesis
        using \<open>c = CHR ''/''\<close> bad l
        unfolding r normalizeWebhookPath_def Let_def tt
        by (auto simp add: t startsWithSlash_def endsWithSlash_def slash_after_slash_or_space_def last_butlast_aux)
    qed
  next
    case False
    then show ?thesis
      using bad l h
      unfolding r normalizeWebhookPath_def Let_def tt
      by (auto simp add: t startsWithSlash_def endsWithSlash_def slash_after_slash_or_space_def Suc0_le_length)
  qed
qed


text \<open>
  Claim C8, as amended. \<open>resolveMaxWebhookPath\<close> strips one trailing slash. For every
  \<open>webhookPath\<close> argument \<open>p\<close> whose trimmed form does not end in a slash that follows
  another slash or white space, the result is a fixed point: resolving it again returns it
  unchanged; and the result is the root \<open>/\<close> or does not end in a slash.
\<close>

theorem resolveMaxWebhookPath_fixed_point:
  assumes "\<not> slash_after_slash_or_space (trim p)"
  shows "resolveMaxWebhookPath (Some (resolveMaxWebhookPath (Some p) None None)) u pn
           = resolveMaxWebhookPath (Some p) None None
         \<and> (resolveMaxWebhookPath (Some p) None None = ''/''
            \<or> \<not> endsWithSlash (resolveMaxWebhookPath (Some p) None None))"
proof -
  define r where "r = resolveMaxWebhookPath (Some p) None None"
  have sh: "r \<noteq> []" "hd r = CHR ''/''"
    "r = ''/'' \<or> (last r \<noteq> CHR ''/'' \<and> \<not> is_js_space (last r))"
    using resolve_shape[OF assms] by (simp_all add: r_def)
  have t: "trim r = r"
    using sh slash_not_space by (intro trim_fixed) auto
  have "normalizeWebhookPath (trim r) = r" using sh by (rule normalize_fixed)
  then have "resolveMaxWebhookPath (Some r) u pn = r"
    using sh(1) by (simp add: resolveMaxWebhookPath_def t)
  moreover have "r = ''/'' \<or> \<not> endsWithSlash r"
    using sh(3) by (auto simp: endsWithSlash_def)
  ultimately show ?thesis by (simp add: r_def)
qed

theorem resolveMaxWebhookPath_fixed_point_witness:
  "\<not> slash_after_slash_or_space (trim '' /hooks/max/ '')
   \<and> resolveMaxWebhookPath (Some '' /hooks/max/ '') None None = ''/hooks/max''
   \<and> resolveMaxWebhookPath (Some ''/hooks/max'') None None = ''/hooks/max''"
  using resolveMaxWebhookPath_fixed_point [of "'' /hooks/max/ ''" None None]
  by (simp add: resolveMaxWebhookPath_def normalizeWebhookPath_def trim_def is_js_space_def
      slash_after_slash_or_space_def startsWithSlash_def endsWithSlash_def)

text \<open>
  Claim C8 as stated fails: only one of two trailing slashes is stripped, so the result for
  \<open>/a//\<close> is \<open>/a/\<close>, which resolves to \<open>/a\<close>.
\<close>

theorem resolveMaxWebhookPath_not_idempotent:
  "resolveMaxWebhookPath (Some (resolveMaxWebhookPath (Some ''/a//'') None None)) None None
     \<noteq> resolveMaxWebhookPath (Some ''/a//'') None None"
  by (simp add: resolveMaxWebhookPath_def normalizeWebhookPath_def trim_def is_js_space_def
      startsWithSlash_def endsWithSlash_def)


subsection \<open>Sticker cache\<close>

lemma remember_all_byChat:
  "lastStickerByChat (remember_all rs st) k =
     (case latest_for k rs of Some code \<Rightarrow> Some code | None \<Rightarrow> lastStickerByChat st k)"
proof (induction rs arbitrary: st)
  case Nil
  then show ?case by simp
next
  case (Cons r rs)
  obtain c code where r: "r = (c, code)" by (cases r)
  show ?case
    by (simp add: r Cons.IH rememberStickerCode_def split: option.splits)
qed

lemma remember_all_global:
  "lastStickerGlobal (remember_all rs st) =
     (if rs = [] then lastStickerGlobal st else Some (snd (last rs)))"
proof (induction rs arbitrary: st)
  case Nil
  then show ?case by simp
next
  case (Cons r rs)
  obtain c code where r: "r = (c, code)" by (cases r)
  show ?case
    by (simp add: r Cons.IH rememberStickerCode_def)
qed

text \<open>
  Claim C10. \<open>rememberStickerCode\<close> sets the entry of the chat and the global last code.
  After any sequence of calls, \<open>getLastStickerCode\<close> of a chat returns the chat's own latest
  code when there is one and it is not empty, and otherwise the code of the most recent call
  for any chat; it returns \<open>null\<close> only when nothing was ever remembered. So a code
  remembered for one chat is returned for another chat that has none.
\<close>

theorem getLastStickerCode_falls_back_to_global:
  "lastStickerByChat (rememberStickerCode c code st) (String_of c) = Some code
   \<and> lastStickerGlobal (rememberStickerCode c code st) = Some code
   \<and> getLastStickerCode (Some c) (remember_all rs empty_cache) =
       (case latest_for (String_of c) rs of
          Some own \<Rightarrow> if own \<noteq> [] then Some own
                      else if rs = [] then None else Some (snd (last rs))
        | None \<Rightarrow> if rs = [] then None else Some (snd (last rs)))
   \<and> (getLastStickerCode (Some c) (remember_all rs empty_cache) = None \<longleftrightarrow> rs = [])
   \<and> (String_of c' \<noteq> String_of c \<longrightarrow>
        getLastStickerCode (Some c') (rememberStickerCode c code empty_cache) = Some code)"
proof -
  have 1: "lastStickerByChat (rememberStickerCode c code st) (String_of c) = Some code"
    and 2: "lastStickerGlobal (rememberStickerCode c code st) = Some code"
    by (simp_all add: rememberStickerCode_def)
  have 3: "getLastStickerCode (Some c) (remember_all rs empty_cache) =
       (case latest_for (String_of c) rs of
          Some own \<Rightarrow> if own \<noteq> [] then Some own
                      else if rs = [] then None else Some (snd (last rs))
        | None \<Rightarrow> if rs = [] then None else Some (snd (last rs)))"
    by (simp add: getLastStickerCode_def remember_all_byChat remember_all_global
        empty_cache_def split: option.splits)
  have 4: "getLastStickerCode (Some c) (remember_all rs empty_cache) = None \<longleftrightarrow> rs = []"
    unfolding 3 by (cases rs) (auto split: option.splits)
  have 5: "String_of c' \<noteq> String_of c \<longrightarrow>
        getLastStickerCode (Some c') (rememberStickerCode c code empty_cache) = Some code"
    by (simp add: getLastStickerCode_def rememberStickerCode_def empty_cache_def)
  from 1 2 3 4 5 show ?thesis by blast
qed


theorem getLastStickerCode_falls_back_to_global_witness:
  "String_of (Num 8) \<noteq> String_of (Num 7)
   \<and> getLastStickerCode (Some (Num 8)) (rememberStickerCode (Num 7) ''abc123'' empty_cache)
       = Some ''abc123''
   \<and> getLastStickerCode (Some (Num 8)) (remember_all [] empty_cache) = None"
  using getLastStickerCode_falls_back_to_global
    [of "Num 7" "''abc123''" empty_cache "[]" "Num 8"]
  by (simp add: string_of_int_def digit_char_def getLastStickerCode_def empty_cache_def
      rememberStickerCode_def)



subsection \<open>Webhook requests\<close>

lemma match_target_eq:
  "match_target ts s m =
     (case find (\<lambda>t. has_secret t \<and> target_secret t = Some s) ts of
        Some t \<Rightarrow> Some t
      | None \<Rightarrow> (case filter (\<lambda>t. \<not> has_secret t) ts of
                   [] \<Rightarrow> m
                 | x # xs \<Rightarrow> Some (last (x # xs))))"
proof (induction ts arbitrary: m)
  case Nil
  then show ?case by simp
next
  case (Cons t ts)
  show ?case
  proof (cases "has_secret t")
    case True
    then show ?thesis by (simp add: Cons.IH split: option.splits list.splits)
  next
    case False
    then show ?thesis
      by (simp add: Cons.IH split: option.splits list.splits)
  qed
qed

lemma match_target_None_iff:
  "match_target ts s None = None \<longleftrightarrow> (\<forall>t\<in>set ts. has_secret t \<and> target_secret t \<noteq> Some s)"
proof -
  have f: "find (\<lambda>t. has_secret t \<and> target_secret t = Some s) ts = None
             \<longleftrightarrow> (\<forall>t\<in>set ts. \<not> (has_secret t \<and> target_secret t = Some s))"
    by (auto simp: find_None_iff)
  have g: "filter (\<lambda>t. \<not> has_secret t) ts = [] \<longleftrightarrow> (\<forall>t\<in>set ts. has_secret t)"
    by (simp add: filter_empty_conv)
  show ?thesis
    unfolding match_target_eq using f g
    by (auto split: option.splits list.splits)
qed

lemma handle_registered:
  assumes "webhookTargets (normalizeWebhookPath (req_pathname req)) = Some targets"
    and "targets \<noteq> []"
  shows "handleMaxWebhookRequest tt webhookTargets req =
     (if req_method req \<noteq> Some ''POST'' then
        respond 405 [(''Allow'', ''POST'')] ''Method Not Allowed''
      else
        case req_body req of
          BodyError code err \<Rightarrow>
            respond
              (if code = ''PAYLOAD_TOO_LARGE'' then 413
               else if code = ''REQUEST_BODY_TIMEOUT'' then 408 else 400)
              []
              (if code = ''REQUEST_BODY_TIMEOUT'' then tt else err)
        | BodyValue raw \<Rightarrow>
            if invalid_payload raw then respond 400 [] ''invalid payload''
            else
              (case match_target targets (header_secret req) None of
                 None \<Rightarrow> respond 401 [] ''Unauthorized''
               | Some matchedTarget \<Rightarrow>
                   (case onUpdate matchedTarget raw of
                      Resolved \<Rightarrow>
                        (respond 200 [(''Content-Type'', ''application/json'')] ''{\"ok\":true}'')
                          \<lparr> dispatched := Some (matchedTarget, raw) \<rparr>
                    | Rejected err \<Rightarrow>
                        (respond 500 [] ''Internal Server Error'')
                          \<lparr> dispatched := Some (matchedTarget, raw),
                            error_logged :=
                              Some (''Webhook update processing failed: '' @ err) \<rparr>)))"
  using assms by (simp add: handleMaxWebhookRequest_def Let_def)

lemma status_respond [simp]: "status_of (respond c hs b) = Some c"
  by (simp add: status_of_def respond_def)

lemma status_respond_upd [simp]:
  "status_of ((respond c hs b)\<lparr> dispatched := d \<rparr>) = Some c"
  "status_of ((respond c hs b)\<lparr> dispatched := d, error_logged := e \<rparr>) = Some c"
  by (simp_all add: status_of_def respond_def)


lemma out_respond [simp]:
  "response (respond c hs b) = Some \<lparr> statusCode = c, headers = hs, body = b \<rparr>"
  "dispatched (respond c hs b) = None"
  by (simp_all add: respond_def)

text \<open>
  Claim C6. For a request whose path has at least one registered target,
  \<open>handleMaxWebhookRequest\<close> answers 405 with \<open>Allow: POST\<close> to a request that is not a POST;
  to a POST, 413 when the body is too large, 408 when reading it timed out, 400 for any other
  failure of the body reader and for a body that is not an object, 401 when every target has
  a secret and none equals the secret header. Otherwise the update is given to the matched
  target, which is the first target whose secret equals the header and, when there is none,
  the last target without a secret: the answer is 500 when the callback of that target
  rejects, and 200 with body \<open>{"ok":true}\<close> when it resolves.
\<close>

theorem handleMaxWebhookRequest_status_codes:
  assumes "webhookTargets (normalizeWebhookPath (req_pathname req)) = Some targets"
    and "targets \<noteq> []"
  shows
    "(req_method req \<noteq> Some ''POST'' \<longrightarrow>
        response (handleMaxWebhookRequest tt webhookTargets req) =
          Some \<lparr> statusCode = 405, headers = [(''Allow'', ''POST'')], body = ''Method Not Allowed'' \<rparr>)
     \<and> (req_method req = Some ''POST'' \<longrightarrow>
          (\<forall>code err. req_body req = BodyError code err \<longrightarrow>
             status_of (handleMaxWebhookRequest tt webhookTargets req) =
               Some (if code = ''PAYLOAD_TOO_LARGE'' then 413
                     else if code = ''REQUEST_BODY_TIMEOUT'' then 408 else 400))
        \<and> (\<forall>raw. req_body req = BodyValue raw \<longrightarrow> (\<forall>obj. raw \<noteq> JObject obj) \<longrightarrow>
             status_of (handleMaxWebhookRequest tt webhookTargets req) = Some 400)
        \<and> (\<forall>obj. req_body req = BodyValue (JObject obj) \<longrightarrow>
             ((\<forall>t\<in>set targets. has_secret t \<and> target_secret t \<noteq> Some (header_secret req)) \<longrightarrow>
                status_of (handleMaxWebhookRequest tt webhookTargets req) = Some 401)
           \<and> (\<forall>t. (find (\<lambda>t. has_secret t \<and> target_secret t = Some (header_secret req)) targets
                       = Some t
                     \<or> (find (\<lambda>t. has_secret t \<and> target_secret t = Some (header_secret req)) targets
                          = None
                        \<and> filter (\<lambda>t. \<not> has_secret t) targets \<noteq> []
                        \<and> t = last (filter (\<lambda>t. \<not> has_secret t) targets))) \<longrightarrow>
                 (\<forall>e. onUpdate t (JObject obj) = Rejected e \<longrightarrow>
                    status_of (handleMaxWebhookRequest tt webhookTargets req) = Some 500
                    \<and> dispatched (handleMaxWebhookRequest tt webhookTargets req)
                        = Some (t, JObject obj))
               \<and> (onUpdate t (JObject obj) = Resolved \<longrightarrow>
                    response (handleMaxWebhookRequest tt webhookTargets req) =
                      Some \<lparr> statusCode = 200,
                             headers = [(''Content-Type'', ''application/json'')],
                             body = ''{\"ok\":true}'' \<rparr>
                    \<and> dispatched (handleMaxWebhookRequest tt webhookTargets req)
                        = Some (t, JObject obj)))))"
proof -
  note h = handle_registered[where tt=tt and webhookTargets=webhookTargets and req=req
      and targets=targets, OF assms]
  let ?out = "handleMaxWebhookRequest tt webhookTargets req"
  let ?hit = "find (\<lambda>t. has_secret t \<and> target_secret t = Some (header_secret req)) targets"
  let ?open = "filter (\<lambda>t. \<not> has_secret t) targets"
  have inv: "invalid_payload raw" if "\<forall>obj. raw \<noteq> JObject obj" for raw
    using that by (cases raw) auto
  have m: "response ?out =
      Some \<lparr> statusCode = 405, headers = [(''Allow'', ''POST'')], body = ''Method Not Allowed'' \<rparr>"
    if "req_method req \<noteq> Some ''POST''"
    unfolding h using that by (simp add: respond_def)
  have e: "status_of ?out = Some (if code = ''PAYLOAD_TOO_LARGE'' then 413
                     else if code = ''REQUEST_BODY_TIMEOUT'' then 408 else 400)"
    if "req_method req = Some ''POST''" "req_body req = BodyError code err" for code err
    unfolding h using that by (simp add: respond_def status_of_def)
  have n: "status_of ?out = Some 400"
    if "req_method req = Some ''POST''" "req_body req = BodyValue raw"
      "\<forall>obj. raw \<noteq> JObject obj" for raw
    unfolding h using that inv[of raw] by (simp add: respond_def status_of_def)
  have u: "status_of ?out = Some 401"
    if "req_method req = Some ''POST''" "req_body req = BodyValue (JObject obj)"
      "\<forall>t\<in>set targets. has_secret t \<and> target_secret t \<noteq> Some (header_secret req)" for obj
  proof -
    from that(3) have "match_target targets (header_secret req) None = None"
      by (simp only: match_target_None_iff)
    then show ?thesis
      unfolding h using that(1,2) by (simp add: respond_def status_of_def)
  qed
  have dec: "match_target targets (header_secret req) None = Some t"
    if "?hit = Some t \<or> (?hit = None \<and> ?open \<noteq> [] \<and> t = last ?open)" for t
    using that unfolding match_target_eq by (auto split: list.splits)
  have r1: "status_of ?out = Some 500" and r2: "dispatched ?out = Some (t, JObject obj)"
    if "req_method req = Some ''POST''" "req_body req = BodyValue (JObject obj)"
      "?hit = Some t \<or> (?hit = None \<and> ?open \<noteq> [] \<and> t = last ?open)"
      "onUpdate t (JObject obj) = Rejected e" for obj t e
    unfolding h using that(1,2,4) dec[OF that(3)]
    by (simp_all add: respond_def status_of_def)
  have k1: "response ?out = Some \<lparr> statusCode = 200,
         headers = [(''Content-Type'', ''application/json'')], body = ''{\"ok\":true}'' \<rparr>"
    and k2: "dispatched ?out = Some (t, JObject obj)"
    if "req_method req = Some ''POST''" "req_body req = BodyValue (JObject obj)"
      "?hit = Some t \<or> (?hit = None \<and> ?open \<noteq> [] \<and> t = last ?open)"
      "onUpdate t (JObject obj) = Resolved" for obj t
    unfolding h using that(1,2,4) dec[OF that(3)]
    by (simp_all add: respond_def)
  show ?thesis
    by (intro conjI impI allI) (rule m e n u r1 r2 k1 k2; assumption)+
qed


lemma normalize_max: "normalizeWebhookPath ''/max'' = ''/max''"
  by (simp add: normalizeWebhookPath_def trim_def is_js_space_def startsWithSlash_def
      endsWithSlash_def)

theorem handleMaxWebhookRequest_status_codes_witness:
  "response (handleMaxWebhookRequest ''timeout''
      [''/max'' \<mapsto> [sample_target (Some ''s3cret'') Resolved ''a'']]
      (sample_request (Some ''s3cret''))) =
     Some \<lparr> statusCode = 200, headers = [(''Content-Type'', ''application/json'')],
            body = ''{\"ok\":true}'' \<rparr>
   \<and> status_of (handleMaxWebhookRequest ''timeout''
      [''/max'' \<mapsto> [sample_target (Some ''s3cret'') Resolved ''a'']]
      (sample_request (Some ''wrong''))) = Some 401
   \<and> status_of (handleMaxWebhookRequest ''timeout''
      [''/max'' \<mapsto> [sample_target (Some ''s1'') Resolved ''k1'',
                      sample_target (Some ''s2'') (Rejected ''boom'') ''k2'']]
      (sample_request (Some ''s2''))) = Some 500"
  using handleMaxWebhookRequest_status_codes
    [of "[''/max'' \<mapsto> [sample_target (Some ''s3cret'') Resolved ''a'']]"
        "sample_request (Some ''s3cret'')" "[sample_target (Some ''s3cret'') Resolved ''a'']"
        "''timeout''"]
    handleMaxWebhookRequest_status_codes
    [of "[''/max'' \<mapsto> [sample_target (Some ''s3cret'') Resolved ''a'']]"
        "sample_request (Some ''wrong'')" "[sample_target (Some ''s3cret'') Resolved ''a'']"
        "''timeout''"]
    handleMaxWebhookRequest_status_codes
    [of "[''/max'' \<mapsto> [sample_target (Some ''s1'') Resolved ''k1'',
                         sample_target (Some ''s2'') (Rejected ''boom'') ''k2'']]"
        "sample_request (Some ''s2'')"
        "[sample_target (Some ''s1'') Resolved ''k1'',
          sample_target (Some ''s2'') (Rejected ''boom'') ''k2'']"
        "''timeout''"]
  by (simp add: sample_target_def sample_request_def normalize_max has_secret_def
      header_secret_def)

text \<open>
  Claim C9, as amended. A 401 is written only when every target registered on the path has a
  non-empty secret and none of them equals the secret header; for a POST whose body is a JSON
  object it is written exactly then. If some target without a secret is registered, such a
  POST is not rejected whatever the header: the update goes to the first target whose secret
  equals the header if there is one, otherwise to the last target without a secret in
  registration order.
\<close>

theorem webhook_unauthorized_iff:
  assumes "webhookTargets (normalizeWebhookPath (req_pathname req)) = Some targets"
    and "targets \<noteq> []"
  shows
    "(status_of (handleMaxWebhookRequest tt webhookTargets req) = Some 401 \<longrightarrow>
        (\<forall>t\<in>set targets. has_secret t \<and> target_secret t \<noteq> Some (header_secret req)))
     \<and> (req_method req = Some ''POST'' \<longrightarrow> req_body req = BodyValue (JObject obj) \<longrightarrow>
          (status_of (handleMaxWebhookRequest tt webhookTargets req) = Some 401 \<longleftrightarrow>
             (\<forall>t\<in>set targets. has_secret t \<and> target_secret t \<noteq> Some (header_secret req)))
        \<and> ((\<exists>t\<in>set targets. \<not> has_secret t) \<longrightarrow>
             status_of (handleMaxWebhookRequest tt webhookTargets req) \<in> {Some 200, Some 500}
           \<and> dispatched (handleMaxWebhookRequest tt webhookTargets req) =
               Some (case find (\<lambda>t. has_secret t \<and> target_secret t = Some (header_secret req))
                            targets of
                       Some t \<Rightarrow> t
                     | None \<Rightarrow> last (filter (\<lambda>t. \<not> has_secret t) targets),
                     JObject obj)))"
proof -
  note h = handle_registered[where tt=tt and webhookTargets=webhookTargets and req=req
      and targets=targets, OF assms]
  let ?hdr = "header_secret req"
  let ?out = "handleMaxWebhookRequest tt webhookTargets req"
  have a: "match_target targets ?hdr None = None" if "status_of ?out = Some 401"
    using that unfolding h
    by (auto simp: status_of_def respond_def
        split: body_result.splits option.splits callback_result.splits if_splits)
  have b: "status_of ?out = Some 401"
    if "req_method req = Some ''POST''" "req_body req = BodyValue (JObject obj)"
      "match_target targets ?hdr None = None"
    unfolding h using that by (simp add: status_of_def respond_def)
  have c: "status_of ?out \<in> {Some 200, Some 500} \<and> dispatched ?out = Some (t, JObject obj)"
    if "req_method req = Some ''POST''" "req_body req = BodyValue (JObject obj)"
      "match_target targets ?hdr None = Some t" for t
    unfolding h using that
    by (simp add: status_of_def respond_def split: callback_result.splits)
  have d: "match_target targets ?hdr None =
      Some (case find (\<lambda>t. has_secret t \<and> target_secret t = Some ?hdr) targets of
              Some t \<Rightarrow> t
            | None \<Rightarrow> last (filter (\<lambda>t. \<not> has_secret t) targets))"
    if "\<exists>t\<in>set targets. \<not> has_secret t"
  proof -
    from that have "filter (\<lambda>t. \<not> has_secret t) targets \<noteq> []"
      by (simp add: filter_empty_conv)
    then show ?thesis
      unfolding match_target_eq by (auto split: option.splits list.splits)
  qed
  have 1: "\<forall>t\<in>set targets. has_secret t \<and> target_secret t \<noteq> Some ?hdr"
    if "status_of ?out = Some 401"
    using a[OF that] by (simp only: match_target_None_iff)
  have 2: "status_of ?out = Some 401 \<longleftrightarrow>
        (\<forall>t\<in>set targets. has_secret t \<and> target_secret t \<noteq> Some ?hdr)"
    if "req_method req = Some ''POST''" "req_body req = BodyValue (JObject obj)"
  proof
    assume "status_of ?out = Some 401"
    then show "\<forall>t\<in>set targets. has_secret t \<and> target_secret t \<noteq> Some ?hdr" by (rule 1)
  next
    assume "\<forall>t\<in>set targets. has_secret t \<and> target_secret t \<noteq> Some ?hdr"
    then have "match_target targets ?hdr None = None"
      by (simp only: match_target_None_iff)
    then show "status_of ?out = Some 401" by (rule b[OF that])
  qed
  have 3: "status_of ?out \<in> {Some 200, Some 500}"
    and 4: "dispatched ?out =
               Some (case find (\<lambda>t. has_secret t \<and> target_secret t = Some ?hdr) targets of
                       Some t \<Rightarrow> t
                     | None \<Rightarrow> last (filter (\<lambda>t. \<not> has_secret t) targets),
                     JObject obj)"
    if "req_method req = Some ''POST''" "req_body req = BodyValue (JObject obj)"
      "\<exists>t\<in>set targets. \<not> has_secret t"
    using c[OF that(1,2) d[OF that(3)]] by simp_all
  show ?thesis
    by (intro conjI impI) (rule 1 2 3 4; assumption)+
qed


theorem webhook_unauthorized_iff_witness:
  "dispatched (handleMaxWebhookRequest ''timeout''
      [''/max'' \<mapsto> [sample_target None Resolved ''open'',
                      sample_target (Some ''s3cret'') Resolved ''locked'']]
      (sample_request (Some ''wrong''))) =
     Some (sample_target None Resolved ''open'', JObject [])
   \<and> (status_of (handleMaxWebhookRequest ''timeout''
      [''/max'' \<mapsto> [sample_target None Resolved ''open'',
                      sample_target (Some ''s3cret'') Resolved ''locked'']]
      (sample_request (Some ''wrong''))) \<noteq> Some 401)"
  using webhook_unauthorized_iff
    [of "[''/max'' \<mapsto> [sample_target None Resolved ''open'',
                         sample_target (Some ''s3cret'') Resolved ''locked'']]"
        "sample_request (Some ''wrong'')"
        "[sample_target None Resolved ''open'', sample_target (Some ''s3cret'') Resolved ''locked'']"
        "''timeout''" "[]"]
  by (simp add: sample_target_def sample_request_def normalize_max has_secret_def
      header_secret_def)

text \<open>
  Claim C9 as stated fails for a request that does not reach the secret check: a GET whose
  secret header matches no target, all of which have a secret, is answered 405 and not 401.
\<close>

theorem unmatched_get_is_not_unauthorized:
  "has_secret (sample_target (Some ''s3cret'') Resolved ''locked'')
   \<and> target_secret (sample_target (Some ''s3cret'') Resolved ''locked'')
       \<noteq> Some (header_secret (sample_get (Some ''wrong'')))
   \<and> status_of (handleMaxWebhookRequest ''timeout''
         [''/max'' \<mapsto> [sample_target (Some ''s3cret'') Resolved ''locked'']]
         (sample_get (Some ''wrong''))) = Some 405"
  by (simp add: sample_target_def sample_request_def sample_get_def normalize_max
      has_secret_def header_secret_def handleMaxWebhookRequest_def respond_def status_of_def)


subsection \<open>Long polling\<close>

lemma marker_le_refl: "marker_le a a"
  by (cases a) auto

lemma marker_le_trans: "marker_le a b \<Longrightarrow> marker_le b c \<Longrightarrow> marker_le a c"
  by (cases a; cases b; cases c) auto

lemma startMaxPollingLoop_turn:
  assumes "\<not> aborted_at_top r"
  shows "\<exists>st'. requested st' = requested st @ [marker st]
            \<and> marker st' = adopted (poll r) (marker st)
            \<and> (startMaxPollingLoop dispatch (r # rs) st = st'
                \<or> startMaxPollingLoop dispatch (r # rs) st = startMaxPollingLoop dispatch rs st')"
proof (cases "poll r")
  case (PollOk resp)
  let ?h = "dispatch_updates dispatch (aborted_before_update r) 0 (resp_updates resp) (host st)"
  show ?thesis
  proof (cases "resp_marker resp")
    case None
    show ?thesis
      by (rule exI[of _ "st\<lparr>requested := requested st @ [marker st], host := ?h\<rparr>"])
        (use assms PollOk None in \<open>simp add: adopted_def Let_def\<close>)
  next
    case (Some a)
    show ?thesis
      by (rule exI[of _ "st\<lparr>requested := requested st @ [marker st], marker := Some a,
            host := ?h\<rparr>"])
        (use assms PollOk Some in \<open>simp add: adopted_def Let_def\<close>)
  qed
next
  case PollFailed
  show ?thesis
    by (rule exI[of _ "st\<lparr>requested := requested st @ [marker st]\<rparr>"])
      (use assms PollFailed in \<open>simp add: adopted_def Let_def\<close>)
qed

lemma adopted_le:
  assumes "\<forall>m\<in>set (returned_markers (r # rs)). marker_le a (Some m)"
  shows "marker_le a (adopted (poll r) a)"
  using assms
  by (auto simp: adopted_def marker_le_refl split: poll_result.splits option.splits)

lemma adopted_below_rest:
  assumes "sorted (returned_markers (r # rs))"
    and "\<forall>m\<in>set (returned_markers (r # rs)). marker_le a (Some m)"
  shows "sorted (returned_markers rs)
         \<and> (\<forall>m\<in>set (returned_markers rs). marker_le (adopted (poll r) a) (Some m))"
  using assms
  by (auto simp: adopted_def split: poll_result.splits option.splits)

lemma loop_inv:
  "\<exists>ms. requested (startMaxPollingLoop d rs st) = requested st @ ms
       \<and> length ms \<le> length rs
       \<and> (ms @ [marker (startMaxPollingLoop d rs st)]) ! 0 = marker st
       \<and> (\<forall>i<length ms. (ms @ [marker (startMaxPollingLoop d rs st)]) ! Suc i =
              adopted (poll (rs ! i)) ((ms @ [marker (startMaxPollingLoop d rs st)]) ! i))
       \<and> (sorted (returned_markers rs)
            \<and> (\<forall>m\<in>set (returned_markers rs). marker_le (marker st) (Some m)) \<longrightarrow>
          sorted_wrt marker_le (ms @ [marker (startMaxPollingLoop d rs st)])
            \<and> (\<forall>x\<in>set (ms @ [marker (startMaxPollingLoop d rs st)]). marker_le (marker st) x))"
  (is "\<exists>ms. ?P rs st ms")
proof (induction rs arbitrary: st)
  case Nil
  have "?P [] st []" by (simp add: marker_le_refl)
  then show ?case by blast
next
  case (Cons r rs)
  show ?case
  proof (cases "aborted_at_top r")
    case True
    then have "?P (r # rs) st []" by (simp add: marker_le_refl)
    then show ?thesis by blast
  next
    case False
    from startMaxPollingLoop_turn[OF False, of st d rs]
    obtain st' where req: "requested st' = requested st @ [marker st]"
      and mk: "marker st' = adopted (poll r) (marker st)"
      and alt: "startMaxPollingLoop d (r # rs) st = st'
                \<or> startMaxPollingLoop d (r # rs) st = startMaxPollingLoop d rs st'"
      by blast
    let ?f = "startMaxPollingLoop d (r # rs) st"
    from alt show ?thesis
    proof
      assume e: "?f = st'"
      have "?P (r # rs) st [marker st]"
        unfolding e using req mk
        by (auto simp: marker_le_refl adopted_le)
      then show ?thesis by blast
    next
      assume e: "?f = startMaxPollingLoop d rs st'"
      from Cons.IH[of st'] obtain ms where ih: "?P rs st' ms" by blast
      let ?mf = "marker (startMaxPollingLoop d rs st')"
      have a: "requested (startMaxPollingLoop d rs st') = requested st @ (marker st # ms)"
        using ih req by simp
      have b: "length (marker st # ms) \<le> length (r # rs)" using ih by simp
      have c: "((marker st # ms) @ [?mf]) ! 0 = marker st" by simp
      have d: "((marker st # ms) @ [?mf]) ! Suc i =
              adopted (poll ((r # rs) ! i)) (((marker st # ms) @ [?mf]) ! i)"
        if "i < length (marker st # ms)" for i
      proof (cases i)
        case 0
        then show ?thesis using ih mk by simp
      next
        case (Suc j)
        then show ?thesis using ih that by simp
      qed
      have s: "sorted_wrt marker_le ((marker st # ms) @ [?mf])
            \<and> (\<forall>x\<in>set ((marker st # ms) @ [?mf]). marker_le (marker st) x)"
        if h1: "sorted (returned_markers (r # rs))"
          and h2: "\<forall>m\<in>set (returned_markers (r # rs)). marker_le (marker st) (Some m)"
      proof -
        from adopted_below_rest[OF h1 h2]
        have p: "sorted (returned_markers rs)"
          and q: "\<forall>m\<in>set (returned_markers rs). marker_le (marker st') (Some m)"
          by (simp_all add: mk)
        from ih p q have s1: "sorted_wrt marker_le (ms @ [?mf])"
          and s2: "\<forall>x\<in>set (ms @ [?mf]). marker_le (marker st') x"
          by blast+
        have le: "marker_le (marker st) (marker st')"
          unfolding mk using h2 by (rule adopted_le)
        have s3: "\<forall>x\<in>set (ms @ [?mf]). marker_le (marker st) x"
          using s2 le marker_le_trans by blast
        show ?thesis using s1 s3 by (simp add: marker_le_refl)
      qed
      have "?P (r # rs) st (marker st # ms)"
        unfolding e using a b c d s by blast
      then show ?thesis by blast
    qed
  qed
qed


text \<open>
  Claim C7. The marker starts unset. The values it takes, one at each request and the one at
  the end of the run, form a chain in which every value comes from the one before by adopting
  the marker of that turn's response when the request succeeded and the response has one, and
  is unchanged otherwise. If the markers the vendor returns never decrease, neither do the
  values of the marker.
\<close>

theorem polling_marker_never_regresses:
  "marker (polling_start s) = None
   \<and> length (requested (startMaxPollingLoop dispatch rs (polling_start s))) \<le> length rs
   \<and> (requested (startMaxPollingLoop dispatch rs (polling_start s))
        @ [marker (startMaxPollingLoop dispatch rs (polling_start s))]) ! 0 = None
   \<and> (\<forall>i<length (requested (startMaxPollingLoop dispatch rs (polling_start s))).
         (requested (startMaxPollingLoop dispatch rs (polling_start s))
            @ [marker (startMaxPollingLoop dispatch rs (polling_start s))]) ! Suc i =
         adopted (poll (rs ! i))
           ((requested (startMaxPollingLoop dispatch rs (polling_start s))
              @ [marker (startMaxPollingLoop dispatch rs (polling_start s))]) ! i))
   \<and> (sorted (returned_markers rs) \<longrightarrow>
        sorted_wrt marker_le
          (requested (startMaxPollingLoop dispatch rs (polling_start s))
             @ [marker (startMaxPollingLoop dispatch rs (polling_start s))]))"
proof -
  from loop_inv[of dispatch rs "polling_start s"]
  obtain ms where
    r: "requested (startMaxPollingLoop dispatch rs (polling_start s)) = ms"
    and l: "length ms \<le> length rs"
    and z: "(ms @ [marker (startMaxPollingLoop dispatch rs (polling_start s))]) ! 0 = None"
    and c: "\<forall>i<length ms.
         (ms @ [marker (startMaxPollingLoop dispatch rs (polling_start s))]) ! Suc i =
         adopted (poll (rs ! i))
           ((ms @ [marker (startMaxPollingLoop dispatch rs (polling_start s))]) ! i)"
    and s: "sorted (returned_markers rs) \<longrightarrow>
        sorted_wrt marker_le (ms @ [marker (startMaxPollingLoop dispatch rs (polling_start s))])"
    by (auto simp: polling_start_def)
  show ?thesis
    unfolding r using l z c s by (simp add: polling_start_def)
qed

theorem polling_marker_never_regresses_witness:
  "sorted (returned_markers sample_run)
   \<and> requested (startMaxPollingLoop count_update sample_run (polling_start []))
       = [None, Some 5, Some 5, Some 5]
   \<and> marker (startMaxPollingLoop count_update sample_run (polling_start [])) = Some 7
   \<and> sorted_wrt marker_le [None, Some 5, Some 5, Some 5, Some 7]"
  using polling_marker_never_regresses [of "[]" count_update sample_run]
  by (simp add: sample_run_def sample_round_def polling_start_def)


subsection \<open>Inbound messages\<close>

lemma describe_simps [simp]:
  "attachmentDescriptions (describe d st) = attachmentDescriptions st @ [d]"
  "mediaPaths (describe d st) = mediaPaths st"
  "stickers (describe d st) = stickers st"
  "media_calls (describe d st) = media_calls st"
  by (simp_all add: describe_def)

lemma bracket_nonempty [simp]: "bracket label v \<noteq> []"
  by (simp add: bracket_def)

lemma process_attachment_calls:
  assumes "list_all is_media_call (media_calls st)"
  shows "list_all is_media_call (media_calls (process_attachment env opts c att st))"
  using assms
  by (simp add: process_attachment_def Let_def split: option.splits)

lemma process_attachment_grows:
  "\<exists>ds. attachmentDescriptions (process_attachment env opts c att st)
           = attachmentDescriptions st @ ds
        \<and> (\<forall>d\<in>set ds. d \<noteq> [])
        \<and> (ds = [] \<longrightarrow> stickers (process_attachment env opts c att st) = stickers st)"
  by (simp add: process_attachment_def Let_def split: option.splits)


lemma process_attachments_calls:
  "list_all is_media_call (media_calls st) \<Longrightarrow>
   list_all is_media_call (media_calls (process_attachments env opts c atts st))"
  by (induction atts arbitrary: st) (simp_all add: process_attachment_calls)

lemma process_attachments_grows:
  "\<exists>ds. attachmentDescriptions (process_attachments env opts c atts st)
           = attachmentDescriptions st @ ds
        \<and> (\<forall>d\<in>set ds. d \<noteq> [])
        \<and> (ds = [] \<longrightarrow> stickers (process_attachments env opts c atts st) = stickers st)"
proof (induction atts arbitrary: st)
  case Nil
  show ?case by simp
next
  case (Cons att atts)
  let ?st1 = "process_attachment env opts c att st"
  from process_attachment_grows[of env opts c att st]
  obtain ds1 where a: "attachmentDescriptions ?st1 = attachmentDescriptions st @ ds1"
    and b: "\<forall>d\<in>set ds1. d \<noteq> []" and c: "ds1 = [] \<longrightarrow> stickers ?st1 = stickers st"
    by blast
  from Cons.IH[of ?st1]
  obtain ds2 where d: "attachmentDescriptions (process_attachments env opts c atts ?st1)
        = attachmentDescriptions ?st1 @ ds2"
    and e: "\<forall>d\<in>set ds2. d \<noteq> []"
    and f: "ds2 = [] \<longrightarrow> stickers (process_attachments env opts c atts ?st1) = stickers ?st1"
    by blast
  show ?case
    by (rule exI[of _ "ds1 @ ds2"]) (use a b c d e f in auto)
qed

lemma join_space_empty:
  "(\<forall>d\<in>set ds. d \<noteq> []) \<Longrightarrow> join_space ds = [] \<Longrightarrow> ds = []"
  by (induction ds rule: join_space.induct) auto

lemma reduce_attachments_calls:
  "list_all is_media_call (media_calls (reduce_attachments env opts message cache))"
  unfolding reduce_attachments_def
  by (rule process_attachments_calls) (simp add: attachments_start_def)

lemma reduce_attachments_silent:
  assumes "attachmentText (reduce_attachments env opts message cache) = []"
  shows "stickers (reduce_attachments env opts message cache) = cache"
proof -
  let ?atts = "case attachments (msg_body message) of None \<Rightarrow> [] | Some atts \<Rightarrow> atts"
  let ?c = "chat_id (msg_recipient message)"
  from process_attachments_grows[of env opts ?c ?atts "attachments_start cache"]
  obtain ds where a: "attachmentDescriptions (reduce_attachments env opts message cache) = ds"
    and b: "\<forall>d\<in>set ds. d \<noteq> []"
    and c: "ds = [] \<longrightarrow> stickers (reduce_attachments env opts message cache) = cache"
    by (auto simp: reduce_attachments_def attachments_start_def)
  from assms a have "join_space ds = []" by (simp add: attachmentText_def)
  with b have "ds = []" by (rule join_space_empty)
  with c show ?thesis by simp
qed

lemma effectiveText_empty:
  "effectiveText message st = [] \<Longrightarrow> attachmentText st = []"
  by (simp add: effectiveText_def split: if_splits)

lemma media_calls_not_dispatch:
  "list_all is_media_call calls \<Longrightarrow> \<not> list_ex is_dispatch calls \<and> \<not> list_ex is_route calls"
  by (induction calls) (auto elim: is_media_call.elims)

text \<open>
  Claim C1. If the effective text of a message (its trimmed text, else the joined attachment
  descriptions) is empty and no attachment gave a downloaded media path,
  \<open>processIncomingMessage\<close> returns right after the loop over the attachments: the only
  calls made are the download attempts of that loop, the sticker cache is unchanged, no agent
  route is resolved and the host pipeline is not invoked.
\<close>

theorem empty_message_is_dropped:
  assumes "effectiveText message (reduce_attachments env opts message cache) = []"
    and "\<not> hasMedia (reduce_attachments env opts message cache)"
  shows "processIncomingMessage env opts message cache =
           (media_calls (reduce_attachments env opts message cache), cache)
         \<and> list_all is_media_call (fst (processIncomingMessage env opts message cache))
         \<and> \<not> forwarded (fst (processIncomingMessage env opts message cache))
         \<and> \<not> list_ex is_route (fst (processIncomingMessage env opts message cache))"
proof -
  let ?st = "reduce_attachments env opts message cache"
  have "stickers ?st = cache"
    using assms(1) by (intro reduce_attachments_silent effectiveText_empty)
  then have r: "processIncomingMessage env opts message cache = (media_calls ?st, cache)"
    using assms by (simp add: processIncomingMessage_def)
  have m: "list_all is_media_call (media_calls ?st)" by (rule reduce_attachments_calls)
  show ?thesis
    unfolding r forwarded_def using m media_calls_not_dispatch[OF m] by simp
qed

theorem empty_message_is_dropped_witness:
  "effectiveText (sample_message ''dialog'' (Some ''  '') [] None)
     (reduce_attachments (sample_env True) (sample_opts None None)
        (sample_message ''dialog'' (Some ''  '') [] None) empty_cache) = []
   \<and> processIncomingMessage (sample_env True) (sample_opts None None)
        (sample_message ''dialog'' (Some ''  '') [] None) empty_cache = ([], empty_cache)"
  using empty_message_is_dropped [of "sample_message ''dialog'' (Some ''  '') [] None"
      "sample_env True" "sample_opts None None" empty_cache]
  by (simp add: sample_message_def reduce_attachments_def attachments_start_def
      effectiveText_def hasMedia_def rawText_def orEmpty_def trim_def is_js_space_def
      attachmentText_def)

lemma forwarded_append [simp]: "forwarded (xs @ ys) = (forwarded xs \<or> forwarded ys)"
  by (simp add: forwarded_def list_ex_append)

lemma forwarded_media_calls [simp]:
  "\<not> forwarded (media_calls (reduce_attachments env opts message cache))"
  using media_calls_not_dispatch[OF reduce_attachments_calls] by (simp add: forwarded_def)

lemma forwarded_hand_off [simp]: "forwarded (hand_off env opts message st mentioned)"
  by (simp add: hand_off_def forwarded_def Let_def list_ex_append)

lemma wasMentioned_direct: "\<not> isGroup message \<Longrightarrow> wasMentioned env opts message = Inr None"
  by (simp add: wasMentioned_def)

lemma forwarded_dm_gate [simp]: "\<not> forwarded (snd (dm_gate env opts message))"
  by (simp add: dm_gate_def forwarded_def Let_def)

lemma dm_gate_pairing:
  assumes "dmPolicy opts = None \<or> dmPolicy opts = Some ''pairing''"
    and "senderStr message \<notin> set (effectiveAllowFrom env opts)"
    and "''*'' \<notin> set (effectiveAllowFrom env opts)"
  shows "dm_gate env opts message =
     (False,
      [ReadAllowFromStore,
       UpsertPairingRequest (senderStr message) (formatSenderName (msg_sender message))]
      @ (if snd (upsertPairingRequest env (senderStr message) (formatSenderName (msg_sender message)))
         then [SendMaxMessage
                 (String_of_id (orElse (chat_id (msg_recipient message))
                                       (map_option user_id (msg_sender message))))
                 (buildPairingReply env (''Your MAX user id: '' @ senderStr message)
                    (fst (upsertPairingRequest env (senderStr message)
                           (formatSenderName (msg_sender message)))))]
              @ (if sendMaxMessage env
                      (String_of_id (orElse (chat_id (msg_recipient message))
                                            (map_option user_id (msg_sender message))))
                      (buildPairingReply env (''Your MAX user id: '' @ senderStr message)
                         (fst (upsertPairingRequest env (senderStr message)
                                (formatSenderName (msg_sender message)))))
                 then [StatusSinkOutbound] else [])
         else []))"
  using assms by (auto simp: dm_gate_def Let_def)

text \<open>
  Claim C3, as amended. Under the DM policy \<open>pairing\<close> (also when no policy is set), for a
  direct message that is not dropped as empty and whose sender is neither in the configured
  allow-list nor in the pairing store, with no wildcard entry: after the download attempts of
  the attachment loop the function reads the store, upserts one pairing request and, only if
  the upsert reports \<open>created\<close>, sends one message built by \<open>buildPairingReply\<close> from the
  pairing code and the line with the sender's id; nothing else is called, and the host
  pipeline is not invoked.
\<close>

theorem pairing_request_replied_once:
  assumes "\<not> isGroup message"
    and "dmPolicy opts = None \<or> dmPolicy opts = Some ''pairing''"
    and "senderStr message \<notin> set (effectiveAllowFrom env opts)"
    and "''*'' \<notin> set (effectiveAllowFrom env opts)"
    and "effectiveText message (reduce_attachments env opts message cache) \<noteq> []
         \<or> hasMedia (reduce_attachments env opts message cache)"
  shows "fst (processIncomingMessage env opts message cache) =
     media_calls (reduce_attachments env opts message cache)
     @ [ReadAllowFromStore,
        UpsertPairingRequest (senderStr message) (formatSenderName (msg_sender message))]
     @ (if snd (upsertPairingRequest env (senderStr message) (formatSenderName (msg_sender message)))
        then [SendMaxMessage
                (String_of_id (orElse (chat_id (msg_recipient message))
                                      (map_option user_id (msg_sender message))))
                (buildPairingReply env (''Your MAX user id: '' @ senderStr message)
                   (fst (upsertPairingRequest env (senderStr message)
                          (formatSenderName (msg_sender message)))))]
             @ (if sendMaxMessage env
                     (String_of_id (orElse (chat_id (msg_recipient message))
                                           (map_option user_id (msg_sender message))))
                     (buildPairingReply env (''Your MAX user id: '' @ senderStr message)
                        (fst (upsertPairingRequest env (senderStr message)
                               (formatSenderName (msg_sender message)))))
                then [StatusSinkOutbound] else [])
        else [])
     \<and> \<not> forwarded (fst (processIncomingMessage env opts message cache))"
proof -
  note g = dm_gate_pairing[OF assms(2,3,4)]
  have r: "fst (processIncomingMessage env opts message cache) =
      media_calls (reduce_attachments env opts message cache) @ snd (dm_gate env opts message)"
  proof -
    have f: "\<not> fst (dm_gate env opts message)" by (simp add: g)
    show ?thesis
      using assms(1,5) f by (auto simp: processIncomingMessage_def Let_def wasMentioned_direct)
  qed
  have "\<not> forwarded (fst (processIncomingMessage env opts message cache))"
    unfolding r by simp
  then show ?thesis
    unfolding r g by simp
qed


lemmas sample_defs =
  sample_env_def sample_opts_def sample_message_def sample_user_def sample_route_def
  sticker_attachment_def reply_to_bot_link_def

lemmas message_defs =
  processIncomingMessage_def reduce_attachments_def attachments_start_def
  process_attachment_def describe_def bracket_def of_payload_def orElse_def orEmpty_def
  effectiveText_def attachmentText_def hasMedia_def rawText_def isGroup_def
  trim_def is_js_space_def dm_gate_def effectiveAllowFrom_def senderStr_def
  String_of_id_def string_of_int_def digit_char_def formatSenderName_def
  group_gate_def group_policy_allows_def resolved_requireMention_def group_lookup_def
  wasMentioned_def reply_to_bot_def hand_off_def forwarded_def starts_with_def Let_def

theorem pairing_request_replied_once_witness:
  "fst (processIncomingMessage (sample_env True) (sample_opts (Some ''pairing'') None)
         (sample_message ''dialog'' (Some ''hi'') [] None) empty_cache) =
     [ReadAllowFromStore, UpsertPairingRequest ''1'' ''Ann'',
      SendMaxMessage ''77'' ''Your MAX user id: 1, code: PAIR42'', StatusSinkOutbound]
   \<and> fst (processIncomingMessage (sample_env False) (sample_opts (Some ''pairing'') None)
         (sample_message ''dialog'' (Some ''hi'') [] None) empty_cache) =
     [ReadAllowFromStore, UpsertPairingRequest ''1'' ''Ann'']"
  using pairing_request_replied_once [of "sample_message ''dialog'' (Some ''hi'') [] None"
      "sample_opts (Some ''pairing'') None" "sample_env True" empty_cache]
    pairing_request_replied_once [of "sample_message ''dialog'' (Some ''hi'') [] None"
      "sample_opts (Some ''pairing'') None" "sample_env False" empty_cache]
  by (simp add: sample_defs message_defs)

text \<open>
  Claim C3 as stated fails for a direct message with no text and no attachment: it is dropped
  before the DM policy is looked at, so the first message of an unknown sender upserts no
  pairing request and sends no reply.
\<close>

theorem empty_dm_makes_no_pairing_request:
  "\<not> isGroup (sample_message ''dialog'' None [] None)
   \<and> dmPolicy (sample_opts (Some ''pairing'') None) = Some ''pairing''
   \<and> senderStr (sample_message ''dialog'' None [] None)
       \<notin> set (effectiveAllowFrom (sample_env True) (sample_opts (Some ''pairing'') None))
   \<and> ''*'' \<notin> set (effectiveAllowFrom (sample_env True) (sample_opts (Some ''pairing'') None))
   \<and> fst (processIncomingMessage (sample_env True) (sample_opts (Some ''pairing'') None)
           (sample_message ''dialog'' None [] None) empty_cache) = []"
  by (simp add: sample_defs message_defs)

text \<open>
  Claim C4. For a message without text whose only attachment is a sticker with code
  \<open>abc123\<close> and no URL, the code for the chat is remembered and the message is forwarded, but
  the effective text is \<open>[Sticker: code=abc123] [Sticker: abc123]\<close> and not
  \<open>[Sticker: code=abc123]\<close>: the branch for an attachment without URL describes the
  sticker a second time.
\<close>

theorem sticker_without_url_is_described_twice:
  "effectiveText (sample_message ''dialog'' None [sticker_attachment] None)
     (reduce_attachments (sample_env True) (sample_opts (Some ''open'') None)
        (sample_message ''dialog'' None [sticker_attachment] None) empty_cache)
     = ''[Sticker: code=abc123] [Sticker: abc123]''
   \<and> getLastStickerCode (Some (Num 77))
       (snd (processIncomingMessage (sample_env True) (sample_opts (Some ''open'') None)
          (sample_message ''dialog'' None [sticker_attachment] None) empty_cache))
     = Some ''abc123''
   \<and> forwarded
       (fst (processIncomingMessage (sample_env True) (sample_opts (Some ''open'') None)
          (sample_message ''dialog'' None [sticker_attachment] None) empty_cache))"
  by (simp add: sample_defs message_defs getLastStickerCode_def rememberStickerCode_def
      empty_cache_def)

text \<open>
  Claim C2, as amended. For a group or channel message that is not dropped as empty and
  passes the group policy, when the resolved group entry does not set \<open>requireMention\<close> to
  false: if the bot's username is known and \<open>@<botUsername>\b\<close> is a pattern the platform
  accepts, the message is forwarded exactly when that pattern (flag \<open>i\<close>) matches the raw
  text or the message is a reply to a message of the bot; if the username is not known, the
  message is dropped.
\<close>

theorem group_message_needs_mention:
  assumes "isGroup message"
    and "effectiveText message (reduce_attachments env opts message cache) \<noteq> []
         \<or> hasMedia (reduce_attachments env opts message cache)"
    and "group_policy_allows opts message"
    and "resolved_requireMention opts message"
  shows "(\<forall>test. orEmpty (botUsername opts) \<noteq> [] \<longrightarrow>
            new_RegExp env (mentionPattern (orEmpty (botUsername opts))) = Some test \<longrightarrow>
            (forwarded (fst (processIncomingMessage env opts message cache)) \<longleftrightarrow>
               test (orEmpty (body_text (msg_body message)))
               \<or> (\<exists>l replySender. msg_link message = Some l \<and> link_type l = ''reply''
                     \<and> link_sender l = Some replySender \<and> is_bot replySender
                     \<and> Some (user_id replySender) = botUserId opts)))
       \<and> (orEmpty (botUsername opts) = [] \<longrightarrow>
            \<not> forwarded (fst (processIncomingMessage env opts message cache)))"
proof -
  have g: "group_gate opts message mentioned \<longleftrightarrow> mentioned = Some True" for mentioned
    using assms(3,4) by (simp add: group_gate_def)
  have f: "forwarded (fst (processIncomingMessage env opts message cache))
             \<longleftrightarrow> mentioned = Some True"
    if "wasMentioned env opts message = Inr mentioned" for mentioned
    using assms(1,2) that by (auto simp: processIncomingMessage_def Let_def g)
  have reply: "reply_to_bot opts message \<longleftrightarrow>
      (\<exists>l replySender. msg_link message = Some l \<and> link_type l = ''reply''
         \<and> link_sender l = Some replySender \<and> is_bot replySender
         \<and> Some (user_id replySender) = botUserId opts)"
    by (auto simp: reply_to_bot_def split: option.splits)
  have known: "forwarded (fst (processIncomingMessage env opts message cache)) \<longleftrightarrow>
      test (orEmpty (body_text (msg_body message)))
      \<or> (\<exists>l replySender. msg_link message = Some l \<and> link_type l = ''reply''
            \<and> link_sender l = Some replySender \<and> is_bot replySender
            \<and> Some (user_id replySender) = botUserId opts)"
    if "orEmpty (botUsername opts) \<noteq> []"
      "new_RegExp env (mentionPattern (orEmpty (botUsername opts))) = Some test" for test
  proof -
    have "wasMentioned env opts message =
        Inr (Some (test (rawText message) \<or> reply_to_bot opts message))"
      using assms(1) that by (auto simp: wasMentioned_def Let_def)
    from f[OF this] show ?thesis unfolding reply[symmetric] by (simp add: rawText_def)
  qed
  have unknown: "\<not> forwarded (fst (processIncomingMessage env opts message cache))"
    if "orEmpty (botUsername opts) = []"
  proof -
    have "wasMentioned env opts message = Inr None"
      using that by (simp add: wasMentioned_def)
    from f[OF this] show ?thesis by simp
  qed
  show ?thesis
    by (intro conjI impI allI) (rule known unknown; assumption)+
qed

text \<open>
  When the username is not a pattern the platform accepts, \<open>new RegExp\<close> throws: the
  function stops after the attachment loop and hands nothing to the host pipeline.
\<close>

lemma invalid_mention_pattern_rejects:
  assumes "isGroup message"
    and "effectiveText message (reduce_attachments env opts message cache) \<noteq> []
         \<or> hasMedia (reduce_attachments env opts message cache)"
    and "orEmpty (botUsername opts) \<noteq> []"
    and "new_RegExp env (mentionPattern (orEmpty (botUsername opts))) = None"
  shows "fst (processIncomingMessage env opts message cache) =
           media_calls (reduce_attachments env opts message cache) @ [Rejects ''SyntaxError'']"
proof -
  have "wasMentioned env opts message = Inl ''SyntaxError''"
    using assms(1,3,4) by (simp add: wasMentioned_def)
  then show ?thesis
    using assms(2) by (auto simp: processIncomingMessage_def Let_def)
qed

theorem group_message_needs_mention_witness:
  "forwarded (fst (processIncomingMessage (sample_env True) (sample_opts None (Some ''mybot''))
      (sample_message ''chat'' (Some ''hi'') [] (Some reply_to_bot_link)) empty_cache))
   \<and> \<not> forwarded (fst (processIncomingMessage (sample_env True) (sample_opts None (Some ''mybot''))
      (sample_message ''chat'' (Some ''hi'') [] None) empty_cache))"
  using group_message_needs_mention [of "sample_message ''chat'' (Some ''hi'') [] (Some reply_to_bot_link)"
      "sample_env True" "sample_opts None (Some ''mybot'')" empty_cache]
    group_message_needs_mention [of "sample_message ''chat'' (Some ''hi'') [] None"
      "sample_env True" "sample_opts None (Some ''mybot'')" empty_cache]
  by (simp add: sample_defs message_defs)

text \<open>
  Claim C2 as stated fails when the username of the bot is not known: mention detection,
  the reply test included, is skipped, and a reply to the bot in an allowed group is dropped.
\<close>

theorem reply_to_bot_dropped_without_username:
  "isGroup (sample_message ''chat'' (Some ''hi'') [] (Some reply_to_bot_link))
   \<and> group_policy_allows (sample_opts None None)
        (sample_message ''chat'' (Some ''hi'') [] (Some reply_to_bot_link))
   \<and> resolved_requireMention (sample_opts None None)
        (sample_message ''chat'' (Some ''hi'') [] (Some reply_to_bot_link))
   \<and> reply_to_bot (sample_opts None None)
        (sample_message ''chat'' (Some ''hi'') [] (Some reply_to_bot_link))
   \<and> \<not> forwarded (fst (processIncomingMessage (sample_env True) (sample_opts None None)
        (sample_message ''chat'' (Some ''hi'') [] (Some reply_to_bot_link)) empty_cache))"
  by (simp add: sample_defs message_defs)


subsection \<open>Edited messages\<close>




















end
